theory Spec2Isabelle
  imports Complex_Main
begin

section \<open>Teleoperation command pipeline of the web dashboard\<close>

text \<open>
  A shallow embedding of the command pipeline of \<^verbatim>\<open>src/App.tsx\<close> and
  \<^verbatim>\<open>src/JoystickClean.tsx\<close>: the virtual joystick's handlers, the gamepad polling
  loop, the publisher and the command-activity status.

  Modelling conventions.
  \<^item> A JavaScript number that carries a velocity or an axis sample is the
    \<^typ>\<open>real\<close> it denotes, and every arithmetic operation of the code on such
    numbers rounds its exact result to the nearest double (\<open>fl\<close> below). NaN and the
    infinities are not represented: no operation of the pipeline produces them from
    samples in the ranges of the devices and multipliers in the ranges of the sliders.
    The two zeros are one number, as they are for every test that the code makes.
    Clock readings (\<^verbatim>\<open>Date.now()\<close>, an integral number of milliseconds) are
    \<^typ>\<open>int\<close>.
  \<^item> A React ref or state cell is a field of the record \<open>ui\<close>; a handler is a
    function from the state before to the state after, and a state setter takes effect
    at once.
  \<^item> Every \<^verbatim>\<open>Date.now()\<close> call of a handler is an explicit argument, and so is the
    array that \<^verbatim>\<open>navigator.getGamepads()\<close> returns at a poll.
  \<^item> The status texts contain characters outside ASCII, so each literal is a constructor
    of \<open>status_text\<close>; colours stay strings.
  \<^item> A line of the terminal is kept by its kind and payload, without the locale's
    time prefix and the number formatting; the deferred scrolling of the terminal is
    left out.
  \<^item> Left out, since no statement below is about them: the sensor subscriptions, the
    camera streams and the time of the last update shown with the link state.
\<close>

subsection \<open>Numbers\<close>

text \<open>
  JavaScript's \<^verbatim>\<open>%\<close> truncates towards zero: the result has the sign of the dividend.
  \<^verbatim>\<open>Math.floor(a / b)\<close> on integers is the floor quotient, which is \<open>div\<close> on
  \<^typ>\<open>int\<close>.
\<close>

definition js_rem :: "int \<Rightarrow> int \<Rightarrow> int" where
  "js_rem a b = sgn a * (\<bar>a\<bar> mod \<bar>b\<bar>)"

text \<open>
  Rounding to the nearest double (IEEE 754 binary64, ties to even). For \<open>a > 0\<close>,
  \<open>binade n a\<close> is the exponent \<open>e\<close> with \<open>2^e \<le> a < 2^(e+1)\<close>, found in at most \<open>n\<close>
  halvings or doublings; 1100 of them cover the exponents of the doubles. A double of
  that binade is a multiple of \<open>2^(e - 52)\<close>, and of \<open>2^(-1074)\<close> in the subnormal range:
  \<open>fl\<close> rounds the quotient by this unit to the nearest integer, to the even one of two
  that are equally near.
\<close>

primrec binade :: "nat \<Rightarrow> real \<Rightarrow> int" where
  "binade 0 a = 0"
| "binade (Suc n) a =
     (if 2 \<le> a then binade n (a / 2) + 1
      else if a < 1 then binade n (2 * a) - 1
      else 0)"

definition round_half_even :: "real \<Rightarrow> int" where
  "round_half_even m =
     (let f = \<lfloor>m\<rfloor>; d = m - of_int f
      in if d < 1 / 2 then f
         else if 1 / 2 < d then f + 1
         else if even f then f else f + 1)"

definition ulp_exp :: "real \<Rightarrow> int" where
  "ulp_exp a = max (binade 1100 a - 52) (- 1074)"

definition fl :: "real \<Rightarrow> real" where
  "fl x =
     (if x = 0 then 0
      else sgn x * of_int (round_half_even (\<bar>x\<bar> / 2 powi ulp_exp \<bar>x\<bar>))
             * 2 powi ulp_exp \<bar>x\<bar>)"

text \<open>
  The operators \<^verbatim>\<open>*\<close>, \<^verbatim>\<open>/\<close> and \<^verbatim>\<open>-\<close> of the code on two numbers. A decimal
  literal of the source, such as \<^verbatim>\<open>0.01\<close>, denotes the double nearest to it:
  \<open>fl (1 / 100)\<close>. Negation, \<^verbatim>\<open>Math.abs\<close> and \<^verbatim>\<open>Math.sign\<close> are exact.
\<close>

definition js_mul :: "real \<Rightarrow> real \<Rightarrow> real" where
  "js_mul a b = fl (a * b)"

definition js_div :: "real \<Rightarrow> real \<Rightarrow> real" where
  "js_div a b = fl (a / b)"

definition js_sub :: "real \<Rightarrow> real \<Rightarrow> real" where
  "js_sub a b = fl (a - b)"

subsection \<open>The outbound message (App.tsx, lines 77 to 96)\<close>

text \<open>
  The object literal built by \<^verbatim>\<open>buildTwistStamped\<close>. The fields of the source are
  \<^verbatim>\<open>header.frame_id\<close>, \<^verbatim>\<open>header.stamp.sec\<close>, \<^verbatim>\<open>header.stamp.nanosec\<close>,
  \<^verbatim>\<open>twist.linear.{x,y,z}\<close> and \<^verbatim>\<open>twist.angular.{x,y,z}\<close>; the record fields carry a
  prefix because a field name is a constant of the theory.
\<close>

record stamp =
  sec :: int
  nanosec :: int

record header =
  frame_id :: string
  hdr_stamp :: stamp

record vector3 =
  vec_x :: real
  vec_y :: real
  vec_z :: real

record twist =
  tw_linear :: vector3
  tw_angular :: vector3

record twist_stamped =
  msg_header :: header
  msg_twist :: twist

text \<open>\<^verbatim>\<open>getROSTimestamp\<close>; the argument is the value of its \<^verbatim>\<open>Date.now()\<close>.\<close>

definition getROSTimestamp :: "int \<Rightarrow> stamp" where
  "getROSTimestamp now = \<lparr> sec = now div 1000, nanosec = js_rem now 1000 * 1000000 \<rparr>"

definition buildTwistStamped :: "int \<Rightarrow> real \<Rightarrow> real \<Rightarrow> twist_stamped" where
  "buildTwistStamped now linX angZ =
     \<lparr> msg_header = \<lparr> frame_id = ''base_link'', hdr_stamp = getROSTimestamp now \<rparr>,
       msg_twist = \<lparr> tw_linear = \<lparr> vec_x = linX, vec_y = 0, vec_z = 0 \<rparr>,
                     tw_angular = \<lparr> vec_x = 0, vec_y = 0, vec_z = angZ \<rparr> \<rparr> \<rparr>"

subsection \<open>The easing function (JoystickClean.tsx, lines 23 to 29)\<close>


definition applyEasing_fl :: "real \<Rightarrow> real" where
  "applyEasing_fl v =
     (let normalized = js_div v 100;
          sign = sgn normalized;
          abs_n = \<bar>normalized\<bar>;
          eased = js_mul abs_n abs_n
      in js_mul sign eased)"

subsection \<open>The virtual joystick (JoystickClean.tsx)\<close>

text \<open>
  The literals that the two statuses take in the source: \<open>Connecting\<close> is
  \<^verbatim>\<open>'Connecting...'\<close> and \<open>Pending\<close> is \<^verbatim>\<open>'Pending...'\<close> (the initial values of the
  link status and of the command-activity status), and \<open>Connected\<close>, \<open>Idle\<close>,
  \<open>Active\<close>, \<open>Error\<close> and \<open>Disconnected\<close> are the words \<^verbatim>\<open>Connected\<close>,
  \<^verbatim>\<open>Idle\<close>, \<^verbatim>\<open>Active\<close>, \<^verbatim>\<open>Error\<close> and \<^verbatim>\<open>Disconnected\<close> followed by a
  pictograph.
\<close>

datatype status_text = Connecting | Connected | Pending | Idle | Active | Error | Disconnected

text \<open>
  The event object of the joystick widget: each coordinate is a number or \<^verbatim>\<open>null\<close>.
\<close>

record move_event =
  ev_x :: "real option"
  ev_y :: "real option"

text \<open>
  The component owns one ref, \<^verbatim>\<open>lastMoveTime\<close>, and reaches its parent only through
  the props \<^verbatim>\<open>onMove\<close>, \<^verbatim>\<open>onEnd\<close> and \<^verbatim>\<open>onStatusUpdate\<close>. A handler returns the calls
  it makes on these props, in the order in which the source makes them; the second
  argument of \<open>OnStatusUpdate\<close> is the optional colour.
\<close>

datatype callback =
    OnMove real real
  | OnEnd
  | OnStatusUpdate status_text "string option"

text \<open>
  \<^verbatim>\<open>handleMove\<close>: \<open>lm\<close> and \<open>am\<close> are the props \<^verbatim>\<open>linearMul\<close> and \<^verbatim>\<open>angularMul\<close>,
  \<open>now\<close> the value of \<^verbatim>\<open>Date.now()\<close>, \<open>lastT\<close> the content of \<^verbatim>\<open>lastMoveTime\<close>. The
  result is the new content of the ref and the calls made.
\<close>

definition handleMove ::
  "real \<Rightarrow> real \<Rightarrow> int \<Rightarrow> move_event \<Rightarrow> int \<Rightarrow> int \<times> callback list" where
  "handleMove lm am now event lastT =
     (case ev_x event of
        None \<Rightarrow> (lastT, [])
      | Some ex \<Rightarrow>
          (case ev_y event of
             None \<Rightarrow> (lastT, [])
           | Some ey \<Rightarrow>
               if now - lastT < 30 then (lastT, [])
               else
                 (let easedY = applyEasing_fl ey;
                      easedX = applyEasing_fl ex;
                      lin = js_mul easedY lm;
                      ang = js_mul (- easedX) am
                  in (now,
                      if \<bar>lin\<bar> > fl (1 / 100) \<or> \<bar>ang\<bar> > fl (1 / 100)
                      then [OnMove lin ang, OnStatusUpdate Active None]
                      else []))))"

definition handleStop :: "callback list" where
  "handleStop = [OnEnd, OnStatusUpdate Idle (Some ''#ccc'')]"

subsection \<open>The state of the page (App.tsx)\<close>

text \<open>The \<^verbatim>\<open>ROSLIB.Topic\<close> held by \<^verbatim>\<open>cmdVelRef\<close>, by its constructor arguments.\<close>

record topic =
  topic_name :: string
  messageType :: string

text \<open>The lines that \<^verbatim>\<open>logDebug\<close> appends to the terminal, by kind and payload.\<close>

datatype log_line =
    LogInitializing
  | LogUIVersion
  | LogRosConnected
  | LogRosError string
  | LogRosDisconnected
  | LogJoystick real real
  | LogReleased
  | LogPadConnected string
  | LogPadDisconnected
  | LogPad real real

record joystick_log =
  log_t :: int
  log_lin :: real
  log_ang :: real

text \<open>
  A \<^verbatim>\<open>Gamepad\<close> object, and the polling callback handed to
  \<^verbatim>\<open>requestAnimationFrame\<close>: the closure \<^verbatim>\<open>pollGamepad\<close> of one run of the effect,
  which has captured that run's \<^verbatim>\<open>linearMul\<close> and \<^verbatim>\<open>angularMul\<close>.
\<close>

record gamepad =
  gp_id :: string
  gp_index :: nat
  gp_axes :: "real list"

record poll_closure =
  cl_linearMul :: real
  cl_angularMul :: real

text \<open>
  The cells of the page that the pipeline reads or writes. \<open>published\<close> is the list of
  messages handed to \<^verbatim>\<open>cmdVelRef.current.publish\<close>, oldest first; \<open>rafQueue\<close> is the
  list of callbacks registered with \<^verbatim>\<open>requestAnimationFrame\<close> that have not run yet,
  oldest first; \<open>lastMoveTime\<close> is the ref of the joystick component; \<open>webStatus\<close> is
  the link status, which follows the lifecycle events of the transport, and
  \<open>sensorRos\<close> is the field \<^verbatim>\<open>ros\<close> of \<^verbatim>\<open>sensorData\<close>.
\<close>

record ui =
  linearMul :: real
  angularMul :: real
  twistStatus :: status_text
  twistStatusColor :: string
  terminalOutput :: "log_line list"
  cmdVelRef :: "topic option"
  gamepadIdxRef :: "nat option"
  joystickLogRef :: joystick_log
  published :: "twist_stamped list"
  rafQueue :: "poll_closure list"
  lastMoveTime :: int
  webStatus :: status_text
  webStatusColor :: string
  sensorRos :: "string option"

text \<open>The page as \<^verbatim>\<open>useState\<close> and \<^verbatim>\<open>useRef\<close> initialise it.\<close>

definition initial_ui :: ui where
  "initial_ui =
     \<lparr> linearMul = 1 / 2, angularMul = 1,
       twistStatus = Pending, twistStatusColor = ''#ccc'',
       terminalOutput = [LogInitializing],
       cmdVelRef = None, gamepadIdxRef = None,
       joystickLogRef = \<lparr> log_t = 0, log_lin = 0, log_ang = 0 \<rparr>,
       published = [], rafQueue = [], lastMoveTime = 0,
       webStatus = Connecting, webStatusColor = ''#00ffcc'', sensorRos = None \<rparr>"

text \<open>
  The body of the effect, as far as the pipeline goes: it opens a connection, resets
  the terminal, and creates the publisher of \<^verbatim>\<open>/cmd_vel\<close> and stores it in
  \<^verbatim>\<open>cmdVelRef\<close>, before any lifecycle event of the connection can arrive. The
  handlers of the lifecycle events and the gamepad listeners exist from here on.
\<close>

definition mount :: "ui \<Rightarrow> ui" where
  "mount s =
     s\<lparr> terminalOutput := [LogUIVersion, LogInitializing],
        cmdVelRef := Some \<lparr> topic_name = ''/cmd_vel'',
                             messageType = ''geometry_msgs/msg/TwistStamped'' \<rparr> \<rparr>"

definition logDebug :: "log_line \<Rightarrow> ui \<Rightarrow> ui" where
  "logDebug msg s = s\<lparr> terminalOutput := terminalOutput s @ [msg] \<rparr>"

text \<open>The state setters that \<^verbatim>\<open>updateStatus\<close> is called with.\<close>

definition setWebStatus :: "status_text \<Rightarrow> ui \<Rightarrow> ui" where
  "setWebStatus v s = s\<lparr> webStatus := v \<rparr>"

definition setWebStatusColor :: "string \<Rightarrow> ui \<Rightarrow> ui" where
  "setWebStatusColor v s = s\<lparr> webStatusColor := v \<rparr>"

definition setTwistStatus :: "status_text \<Rightarrow> ui \<Rightarrow> ui" where
  "setTwistStatus v s = s\<lparr> twistStatus := v \<rparr>"

definition setTwistStatusColor :: "string \<Rightarrow> ui \<Rightarrow> ui" where
  "setTwistStatusColor v s = s\<lparr> twistStatusColor := v \<rparr>"

text \<open>\<^verbatim>\<open>updateStatus\<close>; the colour defaults to \<^verbatim>\<open>'#00ffcc'\<close>.\<close>

definition updateStatus ::
  "(status_text \<Rightarrow> ui \<Rightarrow> ui) \<Rightarrow> (string \<Rightarrow> ui \<Rightarrow> ui) \<Rightarrow> status_text \<Rightarrow> string option \<Rightarrow> ui \<Rightarrow> ui"
  where
  "updateStatus setter colorSetter text color s =
     colorSetter (case color of None \<Rightarrow> ''#00ffcc'' | Some c \<Rightarrow> c) (setter text s)"

text \<open>\<^verbatim>\<open>publishTwist\<close>; \<open>now\<close> is the clock reading that \<^verbatim>\<open>getROSTimestamp\<close> takes.\<close>

definition publishTwist :: "int \<Rightarrow> real \<Rightarrow> real \<Rightarrow> ui \<Rightarrow> ui" where
  "publishTwist now lx az s =
     (case cmdVelRef s of
        None \<Rightarrow> s
      | Some t \<Rightarrow> s\<lparr> published := published s @ [buildTwistStamped now lx az] \<rparr>)"

text \<open>
  \<^verbatim>\<open>handleJoystickMove\<close>: \<open>tStamp\<close> is the clock reading inside \<^verbatim>\<open>publishTwist\<close>,
  \<open>tLog\<close> the one the handler takes for its log throttle.
\<close>

definition handleJoystickMove :: "int \<Rightarrow> int \<Rightarrow> real \<Rightarrow> real \<Rightarrow> ui \<Rightarrow> ui" where
  "handleJoystickMove tStamp tLog lin ang s =
     (let s1 = publishTwist tStamp lin ang s;
          lastLog = joystickLogRef s1;
          linDelta = \<bar>js_sub lin (log_lin lastLog)\<bar>;
          angDelta = \<bar>js_sub ang (log_ang lastLog)\<bar>
      in if tLog - log_t lastLog > 100 \<or> linDelta > fl (1 / 100) \<or> angDelta > fl (1 / 100)
         then logDebug (LogJoystick lin ang)
                (s1\<lparr> joystickLogRef := \<lparr> log_t = tLog, log_lin = lin, log_ang = ang \<rparr> \<rparr>)
         else s1)"

definition handleJoystickEnd :: "int \<Rightarrow> ui \<Rightarrow> ui" where
  "handleJoystickEnd tStamp s = logDebug LogReleased (publishTwist tStamp 0 0 s)"

definition handleJoystickStatusUpdate :: "status_text \<Rightarrow> string option \<Rightarrow> ui \<Rightarrow> ui" where
  "handleJoystickStatusUpdate text color s =
     updateStatus setTwistStatus setTwistStatusColor text
       (Some (case color of None \<Rightarrow> ''#00ffcc'' | Some c \<Rightarrow> c)) s"

text \<open>The props that the page passes to the joystick, applied to one call.\<close>

fun invoke :: "int \<Rightarrow> int \<Rightarrow> ui \<Rightarrow> callback \<Rightarrow> ui" where
  "invoke tStamp tLog s (OnMove lin ang) = handleJoystickMove tStamp tLog lin ang s"
| "invoke tStamp tLog s OnEnd = handleJoystickEnd tStamp s"
| "invoke tStamp tLog s (OnStatusUpdate text color) = handleJoystickStatusUpdate text color s"

text \<open>
  A move event and a release event of the widget, on the page: the joystick's handler
  runs with the page's current multipliers and its calls are made in order.
\<close>

definition touchMove :: "int \<Rightarrow> int \<Rightarrow> int \<Rightarrow> move_event \<Rightarrow> ui \<Rightarrow> ui" where
  "touchMove tMove tStamp tLog event s =
     (case handleMove (linearMul s) (angularMul s) tMove event (lastMoveTime s) of
        (lastT, calls) \<Rightarrow> foldl (invoke tStamp tLog) (s\<lparr> lastMoveTime := lastT \<rparr>) calls)"

definition touchRelease :: "int \<Rightarrow> ui \<Rightarrow> ui" where
  "touchRelease tStamp s = foldl (invoke tStamp tStamp) s handleStop"

subsection \<open>The transport's lifecycle and the sliders (App.tsx, lines 134 to 153, 298, 305)\<close>

text \<open>
  The three handlers that the effect registers with \<^verbatim>\<open>ros.on\<close>. None of them reads
  or writes \<^verbatim>\<open>cmdVelRef\<close>.
\<close>

definition setSensorRos :: "string \<Rightarrow> ui \<Rightarrow> ui" where
  "setSensorRos v s = s\<lparr> sensorRos := Some v \<rparr>"

definition onRosConnection :: "ui \<Rightarrow> ui" where
  "onRosConnection s =
     setSensorRos ''Connected''
       (logDebug LogRosConnected
          (updateStatus setTwistStatus setTwistStatusColor Idle (Some ''#ccc'')
             (updateStatus setWebStatus setWebStatusColor Connected None s)))"

definition onRosError :: "string \<Rightarrow> ui \<Rightarrow> ui" where
  "onRosError e s =
     setSensorRos ''Error''
       (logDebug (LogRosError e)
          (updateStatus setTwistStatus setTwistStatusColor Error (Some ''#f55'')
             (updateStatus setWebStatus setWebStatusColor Error (Some ''#f55'') s)))"

definition onRosClose :: "ui \<Rightarrow> ui" where
  "onRosClose s =
     setSensorRos ''Disconnected''
       (logDebug LogRosDisconnected
          (updateStatus setTwistStatus setTwistStatusColor Disconnected (Some ''#fa0'')
             (updateStatus setWebStatus setWebStatusColor Disconnected (Some ''#fa0'') s)))"

text \<open>
  A slider writes its multiplier. The effect depends on both multipliers: when the
  value changes, the page renders again, the cleanup of the effect closes the old
  connection and removes the gamepad listeners, and the body of the effect runs again
  (\<open>mount\<close>), so that the listeners registered from then on have captured the new
  multipliers. The cleanup cancels no callback of \<^verbatim>\<open>requestAnimationFrame\<close> and
  leaves \<^verbatim>\<open>gamepadIdxRef\<close> alone. Writing the value that the cell holds does nothing.
\<close>

definition setLinearMul :: "real \<Rightarrow> ui \<Rightarrow> ui" where
  "setLinearMul v s = (if v = linearMul s then s else mount (s\<lparr> linearMul := v \<rparr>))"

definition setAngularMul :: "real \<Rightarrow> ui \<Rightarrow> ui" where
  "setAngularMul v s = (if v = angularMul s then s else mount (s\<lparr> angularMul := v \<rparr>))"

subsection \<open>The gamepad (App.tsx, lines 219 to 248)\<close>

text \<open>
  \<^verbatim>\<open>navigator.getGamepads()[gamepadIdxRef.current!]\<close>: the array holds a pad or
  \<^verbatim>\<open>null\<close> at each index; reading it at \<^verbatim>\<open>null\<close> or beyond its length gives
  \<^verbatim>\<open>undefined\<close>. Both are falsy, hence \<open>None\<close>.
\<close>

definition getGamepads_at :: "gamepad option list \<Rightarrow> nat option \<Rightarrow> gamepad option" where
  "getGamepads_at pads idx =
     (case idx of
        None \<Rightarrow> None
      | Some i \<Rightarrow> if i < length pads then pads ! i else None)"

text \<open>\<^verbatim>\<open>gp.axes[i]\<close>, \<^verbatim>\<open>undefined\<close> beyond the length of the array.\<close>

definition axis :: "gamepad \<Rightarrow> nat \<Rightarrow> real option" where
  "axis gp i = (if i < length (gp_axes gp) then Some (gp_axes gp ! i) else None)"

text \<open>
  \<^verbatim>\<open>Math.abs(a) > deadzone ? -a * mul : 0\<close>. On \<^verbatim>\<open>undefined\<close> the absolute value is
  NaN and the comparison is false.
\<close>

definition deadzoned :: "real option \<Rightarrow> real \<Rightarrow> real" where
  "deadzoned a mul =
     (let deadzone = fl (1 / 10)
      in case a of
           None \<Rightarrow> 0
         | Some v \<Rightarrow> if \<bar>v\<bar> > deadzone then js_mul (- v) mul else 0)"

text \<open>
  One run of \<^verbatim>\<open>pollGamepad\<close>, the closure with multipliers \<open>lm\<close> and \<open>am\<close>: \<open>now\<close> is
  the clock reading inside \<^verbatim>\<open>publishTwist\<close>, \<open>pads\<close> the array returned by
  \<^verbatim>\<open>navigator.getGamepads()\<close>. The last line reschedules the same closure.
\<close>

definition pollGamepad :: "real \<Rightarrow> real \<Rightarrow> int \<Rightarrow> gamepad option list \<Rightarrow> ui \<Rightarrow> ui" where
  "pollGamepad lm am now pads s =
     (let s1 =
            (case getGamepads_at pads (gamepadIdxRef s) of
               None \<Rightarrow> s
             | Some gp \<Rightarrow>
                 (let ax = axis gp 0;
                      ay = axis gp 1;
                      lin = deadzoned ay lm;
                      ang = deadzoned ax am;
                      s2 = publishTwist now lin ang s
                  in if lin \<noteq> 0 \<or> ang \<noteq> 0
                     then logDebug (LogPad lin ang)
                            (updateStatus setTwistStatus setTwistStatusColor Active None s2)
                     else updateStatus setTwistStatus setTwistStatusColor Idle
                            (Some ''#ccc'') s2))
      in if gamepadIdxRef s1 \<noteq> None
         then s1\<lparr> rafQueue := rafQueue s1 @ [\<lparr> cl_linearMul = lm, cl_angularMul = am \<rparr>] \<rparr>
         else s1)"

definition handleGamepadConnected :: "gamepad \<Rightarrow> ui \<Rightarrow> ui" where
  "handleGamepadConnected gp s =
     (let s1 = logDebug (LogPadConnected (gp_id gp)) (s\<lparr> gamepadIdxRef := Some (gp_index gp) \<rparr>)
      in s1\<lparr> rafQueue := rafQueue s1 @
                 [\<lparr> cl_linearMul = linearMul s, cl_angularMul = angularMul s \<rparr>] \<rparr>)"

definition handleGamepadDisconnected :: "ui \<Rightarrow> ui" where
  "handleGamepadDisconnected s = logDebug LogPadDisconnected (s\<lparr> gamepadIdxRef := None \<rparr>)"

subsection \<open>The event loop\<close>

text \<open>
  The host runs one handler at a time, to completion. A poll tick is the host calling
  the oldest callback registered with \<^verbatim>\<open>requestAnimationFrame\<close>; a callback registered
  during a tick joins the end of the queue. With nothing registered a tick does nothing.
\<close>

datatype event =
    TouchMove int int int move_event
  | TouchRelease int
  | GamepadConnected gamepad
  | GamepadDisconnected
  | PollTick int "gamepad option list"
  | RosConnection
  | RosError string
  | RosClose
  | SetLinearMul real
  | SetAngularMul real

definition tick :: "int \<Rightarrow> gamepad option list \<Rightarrow> ui \<Rightarrow> ui" where
  "tick now pads s =
     (case rafQueue s of
        [] \<Rightarrow> s
      | c # rest \<Rightarrow> pollGamepad (cl_linearMul c) (cl_angularMul c) now pads (s\<lparr> rafQueue := rest \<rparr>))"

fun step :: "ui \<Rightarrow> event \<Rightarrow> ui" where
  "step s (TouchMove tMove tStamp tLog ev) = touchMove tMove tStamp tLog ev s"
| "step s (TouchRelease tStamp) = touchRelease tStamp s"
| "step s (GamepadConnected gp) = handleGamepadConnected gp s"
| "step s GamepadDisconnected = handleGamepadDisconnected s"
| "step s (PollTick now pads) = tick now pads s"
| "step s RosConnection = onRosConnection s"
| "step s (RosError e) = onRosError e s"
| "step s RosClose = onRosClose s"
| "step s (SetLinearMul v) = setLinearMul v s"
| "step s (SetAngularMul v) = setAngularMul v s"

definition run :: "ui \<Rightarrow> event list \<Rightarrow> ui" where
  "run s evs = foldl step s evs"

subsection \<open>Predicates used in the statements\<close>

text \<open>The clock reading that stamps the message of an event is not before the epoch.\<close>

fun stamp_time_ok :: "event \<Rightarrow> bool" where
  "stamp_time_ok (TouchMove tMove tStamp tLog ev) = (0 \<le> tStamp)"
| "stamp_time_ok (TouchRelease tStamp) = (0 \<le> tStamp)"
| "stamp_time_ok (PollTick now pads) = (0 \<le> now)"
| "stamp_time_ok _ = True"

text \<open>
  The fixed part of the wire shape, and the range of the nanoseconds field.
\<close>

definition wire_shape :: "twist_stamped \<Rightarrow> bool" where
  "wire_shape m =
     (frame_id (msg_header m) = ''base_link''
      \<and> vec_y (tw_linear (msg_twist m)) = 0 \<and> vec_z (tw_linear (msg_twist m)) = 0
      \<and> vec_x (tw_angular (msg_twist m)) = 0 \<and> vec_y (tw_angular (msg_twist m)) = 0
      \<and> 0 \<le> nanosec (hdr_stamp (msg_header m))
      \<and> nanosec (hdr_stamp (msg_header m)) < 10 ^ 9)"

text \<open>
  Every connect event of the trace arrives while no polling callback is registered.
\<close>

fun connects_when_idle :: "ui \<Rightarrow> event list \<Rightarrow> bool" where
  "connects_when_idle s [] = True"
| "connects_when_idle s (e # es) =
     ((case e of GamepadConnected gp \<Rightarrow> rafQueue s = [] | _ \<Rightarrow> True)
      \<and> connects_when_idle (step s e) es)"

section \<open>Properties\<close>

subsection \<open>The rounding\<close>

lemma binade_numeral:
  "binade (numeral k) a =
     (if 2 \<le> a then binade (pred_numeral k) (a / 2) + 1
      else if a < 1 then binade (pred_numeral k) (2 * a) - 1
      else 0)"
  by (simp add: numeral_eq_Suc)

text \<open>
  The rules that evaluate \<open>fl\<close> and the operators on numerals. They are for terms
  without variables: on a variable the exponent search unfolds without end.
\<close>

lemmas fl_eval =
  fl_def ulp_exp_def binade_numeral round_half_even_def power_int_minus Let_def
  js_mul_def js_div_def js_sub_def

lemma fl_zero [simp]: "fl 0 = 0"
  by (simp add: fl_def)

lemma fl_minus: "fl (- x) = - fl x"
  by (simp add: fl_def sgn_minus)

text \<open>
  The exponent search is right wherever it matters: with \<open>n\<close> steps it finds the binade
  of every \<open>a\<close> between \<open>2^(-n)\<close> and \<open>2^(n+1)\<close>. The result of \<open>fl\<close> is a multiple of
  the unit of that binade, at most half a unit from its argument.
\<close>

lemma binade_bounds:
  "2 powi (- int n) \<le> a \<Longrightarrow> a < 2 powi (int n + 1) \<Longrightarrow>
   2 powi (binade n a) \<le> a \<and> a < 2 powi (binade n a + 1)"
proof (induction n arbitrary: a)
  case 0
  then show ?case by simp
next
  case (Suc n)
  have pos: "0 < a"
    using Suc.prems(1) by (rule less_le_trans [rotated]) simp
  show ?case
  proof (cases "2 \<le> a")
    case True
    have "2 powi (- int n) \<le> (1::real)"
      by (simp add: power_int_minus field_simps)
    also have "1 \<le> a / 2" using True by simp
    finally have l: "2 powi (- int n) \<le> a / 2" .
    have u: "a / 2 < 2 powi (int n + 1)"
      using Suc.prems(2) by (simp add: power_int_add)
    from Suc.IH [OF l u] True show ?thesis
      by (simp add: power_int_add)
  next
    case False
    show ?thesis
    proof (cases "a < 1")
      case True
      have "(2::real) powi (- int n) = 2 powi (1 + (- int (Suc n)))" by simp
      also have "\<dots> = 2 * 2 powi (- int (Suc n))"
        by (subst power_int_add) simp_all
      finally have l: "2 powi (- int n) \<le> 2 * a"
        using Suc.prems(1) by simp
      have "2 * a < 2" using True by simp
      also have "(2::real) \<le> 2 powi (int n + 1)"
        by (simp add: power_int_add)
      finally have u: "2 * a < 2 powi (int n + 1)" .
      from Suc.IH [OF l u] True False show ?thesis
        by (simp add: power_int_diff power_int_add)
    next
      case False
      with \<open>\<not> 2 \<le> a\<close> show ?thesis by simp
    qed
  qed
qed

lemma round_half_even_error: "\<bar>of_int (round_half_even m) - m\<bar> \<le> 1 / 2"
  by (simp add: round_half_even_def Let_def)

lemma fl_error: "\<bar>fl x - x\<bar> \<le> 2 powi ulp_exp \<bar>x\<bar> / 2"
proof (cases "x = 0")
  case True
  then show ?thesis by simp
next
  case False
  let ?u = "(2::real) powi ulp_exp \<bar>x\<bar>"
  let ?m = "\<bar>x\<bar> / ?u"
  let ?r = "real_of_int (round_half_even ?m)"
  have u: "0 < ?u" by simp
  have sx: "sgn x * \<bar>x\<bar> = x" by (rule mult_sgn_abs)
  have mu: "?m * ?u = \<bar>x\<bar>" using u by simp
  have "fl x - x = sgn x * ?r * ?u - sgn x * (?m * ?u)"
    using False by (simp only: fl_def mu sx if_False)
  also have "\<dots> = sgn x * ((?r - ?m) * ?u)"
    by (simp only: algebra_simps)
  finally have "\<bar>fl x - x\<bar> = \<bar>sgn x\<bar> * (\<bar>?r - ?m\<bar> * \<bar>?u\<bar>)"
    by (simp only: abs_mult)
  also have "\<dots> = \<bar>?r - ?m\<bar> * ?u"
    using False u by (simp add: abs_sgn_eq)
  also have "\<dots> \<le> 1 / 2 * ?u"
    using round_half_even_error [of ?m] u by (intro mult_right_mono) simp_all
  finally show ?thesis by simp
qed

text \<open>The doubles that the literals \<^verbatim>\<open>0.01\<close> and \<^verbatim>\<open>0.1\<close> of the source denote.\<close>

lemma fl_hundredth: "fl (1 / 100) = 5764607523034235 / 576460752303423488"
  by (simp add: fl_eval)

lemma fl_tenth: "fl (1 / 10) = 3602879701896397 / 36028797018963968"
  by (simp add: fl_eval)

text \<open>
  The product \<^verbatim>\<open>0.1 * 0.1\<close> of the code is the double above \<^verbatim>\<open>0.01\<close>.
\<close>

lemma js_mul_tenth_tenth:
  "js_mul (fl (1 / 10)) (fl (1 / 10)) = 1441151880758559 / 144115188075855872"
  "fl (1 / 100) < js_mul (fl (1 / 10)) (fl (1 / 10))"
  by (simp_all add: fl_eval)

subsection \<open>Arithmetic of the easing curve and of the stamp\<close>




lemma js_rem_nonneg: "0 \<le> a \<Longrightarrow> js_rem a 1000 = a mod 1000"
  by (cases "a = 0") (simp_all add: js_rem_def)

lemma wire_shape_build: "0 \<le> now \<Longrightarrow> wire_shape (buildTwistStamped now l a)"
  by (simp add: wire_shape_def buildTwistStamped_def getROSTimestamp_def js_rem_nonneg)

subsection \<open>What each handler leaves alone\<close>

lemmas status_defs =
  updateStatus_def setTwistStatus_def setTwistStatusColor_def
  setWebStatus_def setWebStatusColor_def

lemma publishTwist_published:
  "published (publishTwist now lx az s) =
     (case cmdVelRef s of None \<Rightarrow> published s
      | Some t \<Rightarrow> published s @ [buildTwistStamped now lx az])"
  by (simp add: publishTwist_def split: option.splits)

lemma publishTwist_frame [simp]:
  "cmdVelRef (publishTwist now lx az s) = cmdVelRef s"
  "gamepadIdxRef (publishTwist now lx az s) = gamepadIdxRef s"
  "rafQueue (publishTwist now lx az s) = rafQueue s"
  "twistStatus (publishTwist now lx az s) = twistStatus s"
  "twistStatusColor (publishTwist now lx az s) = twistStatusColor s"
  "lastMoveTime (publishTwist now lx az s) = lastMoveTime s"
  "linearMul (publishTwist now lx az s) = linearMul s"
  "angularMul (publishTwist now lx az s) = angularMul s"
  by (simp_all add: publishTwist_def split: option.splits)

lemma handleJoystickMove_frame [simp]:
  "published (handleJoystickMove tStamp tLog lin ang s) = published (publishTwist tStamp lin ang s)"
  "cmdVelRef (handleJoystickMove tStamp tLog lin ang s) = cmdVelRef s"
  "gamepadIdxRef (handleJoystickMove tStamp tLog lin ang s) = gamepadIdxRef s"
  "rafQueue (handleJoystickMove tStamp tLog lin ang s) = rafQueue s"
  "twistStatus (handleJoystickMove tStamp tLog lin ang s) = twistStatus s"
  "twistStatusColor (handleJoystickMove tStamp tLog lin ang s) = twistStatusColor s"
  "lastMoveTime (handleJoystickMove tStamp tLog lin ang s) = lastMoveTime s"
  by (simp_all add: handleJoystickMove_def logDebug_def Let_def)

lemma handleJoystickEnd_frame [simp]:
  "published (handleJoystickEnd tStamp s) = published (publishTwist tStamp 0 0 s)"
  "cmdVelRef (handleJoystickEnd tStamp s) = cmdVelRef s"
  "gamepadIdxRef (handleJoystickEnd tStamp s) = gamepadIdxRef s"
  "rafQueue (handleJoystickEnd tStamp s) = rafQueue s"
  "twistStatus (handleJoystickEnd tStamp s) = twistStatus s"
  "twistStatusColor (handleJoystickEnd tStamp s) = twistStatusColor s"
  "lastMoveTime (handleJoystickEnd tStamp s) = lastMoveTime s"
  by (simp_all add: handleJoystickEnd_def logDebug_def)

lemma handleJoystickStatusUpdate_frame [simp]:
  "published (handleJoystickStatusUpdate text color s) = published s"
  "cmdVelRef (handleJoystickStatusUpdate text color s) = cmdVelRef s"
  "gamepadIdxRef (handleJoystickStatusUpdate text color s) = gamepadIdxRef s"
  "rafQueue (handleJoystickStatusUpdate text color s) = rafQueue s"
  "twistStatus (handleJoystickStatusUpdate text color s) = text"
  "twistStatusColor (handleJoystickStatusUpdate text color s) =
     (case color of None \<Rightarrow> ''#00ffcc'' | Some c \<Rightarrow> c)"
  "lastMoveTime (handleJoystickStatusUpdate text color s) = lastMoveTime s"
  by (simp_all add: handleJoystickStatusUpdate_def status_defs)

lemma handleMove_cases:
  "handleMove lm am now ev lastT = (lastT, []) \<or>
   (\<exists>lin ang. handleMove lm am now ev lastT = (now, [])
      \<or> handleMove lm am now ev lastT = (now, [OnMove lin ang, OnStatusUpdate Active None]))"
  by (simp add: handleMove_def Let_def split: option.splits)

lemma touchMove_frame [simp]:
  "cmdVelRef (touchMove tMove tStamp tLog ev s) = cmdVelRef s"
  "gamepadIdxRef (touchMove tMove tStamp tLog ev s) = gamepadIdxRef s"
  "rafQueue (touchMove tMove tStamp tLog ev s) = rafQueue s"
  using handleMove_cases [of "linearMul s" "angularMul s" tMove ev "lastMoveTime s"]
  by (auto simp add: touchMove_def)

lemma touchRelease_frame [simp]:
  "cmdVelRef (touchRelease tStamp s) = cmdVelRef s"
  "gamepadIdxRef (touchRelease tStamp s) = gamepadIdxRef s"
  "rafQueue (touchRelease tStamp s) = rafQueue s"
  "lastMoveTime (touchRelease tStamp s) = lastMoveTime s"
  "twistStatus (touchRelease tStamp s) = Idle"
  "twistStatusColor (touchRelease tStamp s) = ''#ccc''"
  "published (touchRelease tStamp s) = published (publishTwist tStamp 0 0 s)"
  by (simp_all add: touchRelease_def handleStop_def)

lemma pollGamepad_frame [simp]:
  "cmdVelRef (pollGamepad lm am now pads s) = cmdVelRef s"
  "gamepadIdxRef (pollGamepad lm am now pads s) = gamepadIdxRef s"
  "lastMoveTime (pollGamepad lm am now pads s) = lastMoveTime s"
  by (simp_all add: pollGamepad_def Let_def status_defs logDebug_def split: option.splits)

lemma pollGamepad_rafQueue:
  "rafQueue (pollGamepad lm am now pads s) =
     rafQueue s @ (if gamepadIdxRef s \<noteq> None
                   then [\<lparr> cl_linearMul = lm, cl_angularMul = am \<rparr>] else [])"
  by (simp add: pollGamepad_def Let_def status_defs logDebug_def split: option.splits)

lemma pollGamepad_present:
  assumes "getGamepads_at pads (gamepadIdxRef s) = Some gp"
  shows "published (pollGamepad lm am now pads s) =
           published (publishTwist now (deadzoned (axis gp 1) lm) (deadzoned (axis gp 0) am) s)"
    and "twistStatus (pollGamepad lm am now pads s) =
           (if deadzoned (axis gp 1) lm \<noteq> 0 \<or> deadzoned (axis gp 0) am \<noteq> 0 then Active else Idle)"
    and "twistStatusColor (pollGamepad lm am now pads s) =
           (if deadzoned (axis gp 1) lm \<noteq> 0 \<or> deadzoned (axis gp 0) am \<noteq> 0
            then ''#00ffcc'' else ''#ccc'')"
  using assms
  by (simp_all add: pollGamepad_def Let_def status_defs logDebug_def)

lemma pollGamepad_absent:
  assumes "getGamepads_at pads (gamepadIdxRef s) = None"
  shows "pollGamepad lm am now pads s =
           (if gamepadIdxRef s \<noteq> None
            then s\<lparr> rafQueue := rafQueue s @ [\<lparr> cl_linearMul = lm, cl_angularMul = am \<rparr>] \<rparr>
            else s)"
  using assms by (simp add: pollGamepad_def Let_def)

lemma handleGamepadConnected_frame [simp]:
  "cmdVelRef (handleGamepadConnected gp s) = cmdVelRef s"
  "gamepadIdxRef (handleGamepadConnected gp s) = Some (gp_index gp)"
  "published (handleGamepadConnected gp s) = published s"
  "twistStatus (handleGamepadConnected gp s) = twistStatus s"
  "rafQueue (handleGamepadConnected gp s) =
     rafQueue s @ [\<lparr> cl_linearMul = linearMul s, cl_angularMul = angularMul s \<rparr>]"
  by (simp_all add: handleGamepadConnected_def Let_def logDebug_def)

lemma handleGamepadDisconnected_frame [simp]:
  "cmdVelRef (handleGamepadDisconnected s) = cmdVelRef s"
  "gamepadIdxRef (handleGamepadDisconnected s) = None"
  "published (handleGamepadDisconnected s) = published s"
  "twistStatus (handleGamepadDisconnected s) = twistStatus s"
  "twistStatusColor (handleGamepadDisconnected s) = twistStatusColor s"
  "rafQueue (handleGamepadDisconnected s) = rafQueue s"
  "lastMoveTime (handleGamepadDisconnected s) = lastMoveTime s"
  by (simp_all add: handleGamepadDisconnected_def logDebug_def)

lemma tick_frame [simp]:
  "cmdVelRef (tick now pads s) = cmdVelRef s"
  "gamepadIdxRef (tick now pads s) = gamepadIdxRef s"
  by (simp_all add: tick_def split: list.splits)

lemma tick_rafQueue_length: "length (rafQueue (tick now pads s)) \<le> length (rafQueue s)"
  by (simp add: tick_def pollGamepad_rafQueue split: list.splits)

lemma lifecycle_frame [simp]:
  "cmdVelRef (onRosConnection s) = cmdVelRef s"
  "cmdVelRef (onRosError err s) = cmdVelRef s"
  "cmdVelRef (onRosClose s) = cmdVelRef s"
  "gamepadIdxRef (onRosConnection s) = gamepadIdxRef s"
  "gamepadIdxRef (onRosError err s) = gamepadIdxRef s"
  "gamepadIdxRef (onRosClose s) = gamepadIdxRef s"
  "published (onRosConnection s) = published s"
  "published (onRosError err s) = published s"
  "published (onRosClose s) = published s"
  "rafQueue (onRosConnection s) = rafQueue s"
  "rafQueue (onRosError err s) = rafQueue s"
  "rafQueue (onRosClose s) = rafQueue s"
  by (simp_all add: onRosConnection_def onRosError_def onRosClose_def setSensorRos_def
        logDebug_def status_defs)

lemma lifecycle_status [simp]:
  "webStatus (onRosConnection s) = Connected"
  "webStatus (onRosError err s) = Error"
  "webStatus (onRosClose s) = Disconnected"
  "twistStatus (onRosConnection s) = Idle"
  "twistStatus (onRosError err s) = Error"
  "twistStatus (onRosClose s) = Disconnected"
  by (simp_all add: onRosConnection_def onRosError_def onRosClose_def setSensorRos_def
        logDebug_def status_defs)

lemma slider_frame [simp]:
  "gamepadIdxRef (setLinearMul v s) = gamepadIdxRef s"
  "gamepadIdxRef (setAngularMul v s) = gamepadIdxRef s"
  "published (setLinearMul v s) = published s"
  "published (setAngularMul v s) = published s"
  "rafQueue (setLinearMul v s) = rafQueue s"
  "rafQueue (setAngularMul v s) = rafQueue s"
  "linearMul (setLinearMul v s) = v"
  "angularMul (setAngularMul v s) = v"
  by (simp_all add: setLinearMul_def setAngularMul_def mount_def)

lemma slider_publisher:
  "cmdVelRef s \<noteq> None \<Longrightarrow> cmdVelRef (setLinearMul v s) \<noteq> None"
  "cmdVelRef s \<noteq> None \<Longrightarrow> cmdVelRef (setAngularMul v s) \<noteq> None"
  by (simp_all add: setLinearMul_def setAngularMul_def mount_def)

lemma step_publisher: "cmdVelRef s \<noteq> None \<Longrightarrow> cmdVelRef (step s e) \<noteq> None"
  by (cases e) (simp_all add: slider_publisher)

lemma run_simps: "run s [] = s" "run s (e # es) = run (step s e) es"
  by (simp_all add: run_def)

lemma run_publisher: "cmdVelRef s \<noteq> None \<Longrightarrow> cmdVelRef (run s evs) \<noteq> None"
proof (induction evs arbitrary: s)
  case Nil
  then show ?case by (simp add: run_simps)
next
  case (Cons e evs)
  from Cons.prems have "cmdVelRef (step s e) \<noteq> None" by (rule step_publisher)
  then have "cmdVelRef (run (step s e) evs) \<noteq> None" by (rule Cons.IH)
  then show ?case by (simp add: run_simps)
qed

subsection \<open>Runs of the event loop\<close>

text \<open>
  The publisher is never cleared: it is set in every state that a run of the mounted
  page reaches, whatever lifecycle events of the transport the run contains.
\<close>

lemma mounted_publisher: "cmdVelRef (run (mount s) evs) \<noteq> None"
  by (rule run_publisher) (simp add: mount_def)

lemma step_wire_shape:
  assumes inv: "\<forall>m \<in> set (published s). wire_shape m" and ok: "stamp_time_ok e"
  shows "\<forall>m \<in> set (published (step s e)). wire_shape m"
proof (cases e)
  case (TouchMove tMove tStamp tLog ev)
  with ok have t: "0 \<le> tStamp" by simp
  from handleMove_cases [of "linearMul s" "angularMul s" tMove ev "lastMoveTime s"]
  show ?thesis
    using inv t
    by (cases "cmdVelRef s")
       (auto simp add: TouchMove touchMove_def publishTwist_published wire_shape_build)
next
  case (TouchRelease tStamp)
  with ok have t: "0 \<le> tStamp" by simp
  show ?thesis
    using inv t
    by (cases "cmdVelRef s") (auto simp add: TouchRelease publishTwist_published wire_shape_build)
next
  case (GamepadConnected gp)
  then show ?thesis using inv by simp
next
  case GamepadDisconnected
  then show ?thesis using inv by simp
next
  case RosConnection
  then show ?thesis using inv by simp
next
  case (RosError err)
  then show ?thesis using inv by simp
next
  case RosClose
  then show ?thesis using inv by simp
next
  case (SetLinearMul v)
  then show ?thesis using inv by simp
next
  case (SetAngularMul v)
  then show ?thesis using inv by simp
next
  case (PollTick now pads)
  with ok have t: "0 \<le> now" by simp
  show ?thesis
  proof (cases "rafQueue s")
    case Nil
    then show ?thesis using inv by (simp add: PollTick tick_def)
  next
    case (Cons c rest)
    let ?s = "s\<lparr> rafQueue := rest \<rparr>"
    show ?thesis
    proof (cases "getGamepads_at pads (gamepadIdxRef ?s)")
      case None
      then show ?thesis
        using inv by (simp add: PollTick tick_def Cons pollGamepad_absent)
    next
      case (Some gp)
      then show ?thesis
        using inv t
        by (cases "cmdVelRef s")
           (auto simp add: PollTick tick_def Cons pollGamepad_present(1) publishTwist_published
              wire_shape_build)
    qed
  qed
qed

lemma run_wire_shape:
  "\<forall>m \<in> set (published s). wire_shape m \<Longrightarrow> \<forall>e \<in> set evs. stamp_time_ok e \<Longrightarrow>
   \<forall>m \<in> set (published (run s evs)). wire_shape m"
  unfolding run_def
proof (induction evs arbitrary: s)
  case Nil
  then show ?case by simp
next
  case (Cons e evs)
  have "\<forall>m \<in> set (published (step s e)). wire_shape m"
    using Cons.prems by (intro step_wire_shape) simp_all
  then show ?case using Cons by simp
qed

subsection \<open>The two outcomes of a move event\<close>

lemma handleMove_accepted:
  assumes "ev_x ev = Some ex" and "ev_y ev = Some ey" and "\<not> now - lastT < 30"
  shows "handleMove lm am now ev lastT =
      (now,
       if \<bar>js_mul (applyEasing_fl ey) lm\<bar> > fl (1 / 100)
          \<or> \<bar>js_mul (- applyEasing_fl ex) am\<bar> > fl (1 / 100)
       then [OnMove (js_mul (applyEasing_fl ey) lm) (js_mul (- applyEasing_fl ex) am),
             OnStatusUpdate Active None]
       else [])"
  using assms by (simp add: handleMove_def Let_def)

lemma handleMove_rejected:
  assumes "now - lastT < 30"
  shows "handleMove lm am now ev lastT = (lastT, [])"
  using assms by (simp add: handleMove_def split: option.splits)

lemma touchMove_no_calls:
  assumes "handleMove (linearMul s) (angularMul s) tMove ev (lastMoveTime s) = (lastT, [])"
  shows "touchMove tMove tStamp tLog ev s = s\<lparr> lastMoveTime := lastT \<rparr>"
  using assms by (simp add: touchMove_def)

lemma touchMove_emitting:
  assumes "handleMove (linearMul s) (angularMul s) tMove ev (lastMoveTime s) =
             (lastT, [OnMove lin ang, OnStatusUpdate Active None])"
  shows "published (touchMove tMove tStamp tLog ev s) =
           (case cmdVelRef s of None \<Rightarrow> published s
            | Some t \<Rightarrow> published s @ [buildTwistStamped tStamp lin ang])"
    and "twistStatus (touchMove tMove tStamp tLog ev s) = Active"
    and "twistStatusColor (touchMove tMove tStamp tLog ev s) = ''#00ffcc''"
    and "lastMoveTime (touchMove tMove tStamp tLog ev s) = lastT"
  using assms by (simp_all add: touchMove_def publishTwist_published split: option.splits)

subsection \<open>Evaluation on concrete runs, and the length of the queue\<close>

lemma deadzoned_Some:
  "deadzoned (Some v) mul = (if \<bar>v\<bar> > fl (1 / 10) then js_mul (- v) mul else 0)"
  by (simp add: deadzoned_def Let_def)

lemma deadzoned_inside: "\<bar>v\<bar> \<le> 1 / 10 \<Longrightarrow> deadzoned (Some v) mul = 0"
  by (simp add: deadzoned_Some fl_tenth)

lemmas pipeline_defs =
  run_simps tick_def pollGamepad_def Let_def handleGamepadConnected_def
  handleGamepadDisconnected_def logDebug_def status_defs publishTwist_def
  getGamepads_at_def axis_def deadzoned_def mount_def initial_ui_def
  touchMove_def touchRelease_def handleMove_def handleStop_def handleJoystickMove_def
  handleJoystickEnd_def handleJoystickStatusUpdate_def applyEasing_fl_def
  onRosConnection_def onRosError_def onRosClose_def setSensorRos_def
  setLinearMul_def setAngularMul_def fl_tenth fl_hundredth

lemma step_rafQueue_length:
  "length (rafQueue (step s e)) \<le>
     length (rafQueue s) + (case e of GamepadConnected gp \<Rightarrow> 1 | _ \<Rightarrow> 0)"
  using tick_rafQueue_length by (cases e) simp_all

lemma run_single_loop:
  "length (rafQueue s) \<le> 1 \<Longrightarrow> connects_when_idle s evs \<Longrightarrow>
   length (rafQueue (run s evs)) \<le> 1"
proof (induction evs arbitrary: s)
  case Nil
  then show ?case by (simp add: run_simps)
next
  case (Cons e evs)
  have "length (rafQueue (step s e)) \<le> 1"
  proof (cases e)
    case (GamepadConnected gp)
    with Cons.prems(2) have "rafQueue s = []" by simp
    with GamepadConnected show ?thesis by simp
  qed (use step_rafQueue_length [of s e] Cons.prems(1) in simp_all)
  moreover have "connects_when_idle (step s e) evs" using Cons.prems(2) by simp
  ultimately show ?case using Cons.IH by (simp add: run_simps)
qed

lemma step_keeps_loop:
  assumes "e \<noteq> GamepadDisconnected" and "gamepadIdxRef s \<noteq> None" and "rafQueue s \<noteq> []"
  shows "gamepadIdxRef (step s e) \<noteq> None \<and> rafQueue (step s e) \<noteq> []"
proof (cases e)
  case (PollTick now pads)
  from assms(3) obtain c rest where q: "rafQueue s = c # rest" by (cases "rafQueue s") auto
  have "gamepadIdxRef (s\<lparr> rafQueue := rest \<rparr>) \<noteq> None" using assms(2) by simp
  then have "rafQueue (pollGamepad (cl_linearMul c) (cl_angularMul c) now pads (s\<lparr> rafQueue := rest \<rparr>)) \<noteq> []"
    by (simp add: pollGamepad_rafQueue)
  with q assms(2) show ?thesis by (simp add: PollTick tick_def)
qed (use assms in simp_all)

lemma run_keeps_loop:
  "GamepadDisconnected \<notin> set evs \<Longrightarrow> gamepadIdxRef s \<noteq> None \<Longrightarrow> rafQueue s \<noteq> [] \<Longrightarrow>
   gamepadIdxRef (run s evs) \<noteq> None \<and> rafQueue (run s evs) \<noteq> []"
proof (induction evs arbitrary: s)
  case Nil
  then show ?case by (simp add: run_simps)
next
  case (Cons e evs)
  from Cons.prems have "e \<noteq> GamepadDisconnected" by auto
  from step_keeps_loop [OF this Cons.prems(2,3)]
  have "gamepadIdxRef (step s e) \<noteq> None" "rafQueue (step s e) \<noteq> []" by simp_all
  moreover from Cons.prems have "GamepadDisconnected \<notin> set evs" by simp
  ultimately show ?case using Cons.IH by (simp add: run_simps)
qed

subsection \<open>The easing as the code computes it\<close>

text \<open>
  With the rounding of each operation the curve keeps its fixed points and its odd
  symmetry; at \<open>50\<close> it is exactly \<open>0.25\<close>, and at \<open>10\<close> it is the double above
  \<open>0.01\<close>.
\<close>

lemma js_mul_zero [simp]: "js_mul 0 b = 0" "js_mul a 0 = 0"
  by (simp_all add: js_mul_def)

lemma applyEasing_fl_values:
  "applyEasing_fl 0 = 0"
  "applyEasing_fl 50 = 1 / 4"
  "applyEasing_fl 100 = 1"
  "applyEasing_fl (- 100) = - 1"
  "applyEasing_fl 10 = 1441151880758559 / 144115188075855872"
  by (simp_all add: applyEasing_fl_def fl_eval)

lemma applyEasing_fl_odd: "applyEasing_fl (- v) = - applyEasing_fl v"
  by (simp add: applyEasing_fl_def js_div_def js_mul_def Let_def fl_minus sgn_minus)

lemma js_mul_one: "js_mul (- (1 / 4)) 1 = - (1 / 4)"
  by (simp add: fl_eval)

lemma pollGamepad_publishes_one:
  assumes present: "getGamepads_at pads (gamepadIdxRef s) = Some gp"
      and x: "axis gp 0 = Some x" and y: "axis gp 1 = Some y"
      and pub: "cmdVelRef s = Some t"
  shows "published (pollGamepad lm am now pads s) =
           published s @
             [buildTwistStamped now (if \<bar>y\<bar> > fl (1 / 10) then js_mul (- y) lm else 0)
                                    (if \<bar>x\<bar> > fl (1 / 10) then js_mul (- x) am else 0)]"
  using pollGamepad_present(1) [OF present] x y pub
  by (simp add: publishTwist_published deadzoned_Some)

lemma publishTwist_noop_iff: "(publishTwist now lx az s = s) = (cmdVelRef s = None)"
proof (cases "cmdVelRef s")
  case None
  then show ?thesis by (simp add: publishTwist_def)
next
  case (Some t)
  have "published (publishTwist now lx az s) \<noteq> published s"
    using Some by (simp add: publishTwist_published)
  then have "publishTwist now lx az s \<noteq> s" by auto
  with Some show ?thesis by simp
qed

subsection \<open>The easing curve\<close>



subsection \<open>The wire shape\<close>

text \<open>
  Claim C9. A message built at a clock reading \<open>now\<close> that is not before the epoch has
  the frame \<^verbatim>\<open>base_link\<close>, the stamp \<open>sec = now div 1000\<close> (the floor of
  \<open>now / 1000\<close>) and \<open>nanosec = (now mod 1000) * 10^6\<close>, the linear vector
  \<open>(linX, 0, 0)\<close> and the angular vector \<open>(0, 0, angZ)\<close>; its nanoseconds lie in
  \<open>[0, 10^9)\<close>. The publisher of the mounted page hands over exactly this message, and
  every message published in any run of the mounted page whose stamping clock readings
  are not before the epoch has the fixed part of the shape and nanoseconds in range.
  The clock counts milliseconds since the epoch; the assumption \<open>0 \<le> now\<close> is where
  the remainder of JavaScript, which takes the sign of its dividend, agrees with
  \<open>mod\<close>.
\<close>

theorem published_message_wire_shape:
  assumes "0 \<le> now"
  shows "buildTwistStamped now linX angZ =
           \<lparr> msg_header = \<lparr> frame_id = ''base_link'',
                            hdr_stamp = \<lparr> sec = now div 1000, nanosec = (now mod 1000) * 10 ^ 6 \<rparr> \<rparr>,
             msg_twist = \<lparr> tw_linear = \<lparr> vec_x = linX, vec_y = 0, vec_z = 0 \<rparr>,
                           tw_angular = \<lparr> vec_x = 0, vec_y = 0, vec_z = angZ \<rparr> \<rparr> \<rparr>
         \<and> 0 \<le> nanosec (hdr_stamp (msg_header (buildTwistStamped now linX angZ)))
         \<and> nanosec (hdr_stamp (msg_header (buildTwistStamped now linX angZ))) < 10 ^ 9
         \<and> publishTwist now linX angZ (mount s) =
             (mount s)\<lparr> published := published s @ [buildTwistStamped now linX angZ] \<rparr>
         \<and> ((\<forall>e \<in> set evs. stamp_time_ok e) \<longrightarrow>
              (\<forall>m \<in> set (published (run (mount initial_ui) evs)). wire_shape m))"
proof -
  have "\<forall>m \<in> set (published (mount initial_ui)). wire_shape m"
    by (simp add: mount_def initial_ui_def)
  then have "(\<forall>e \<in> set evs. stamp_time_ok e) \<longrightarrow>
              (\<forall>m \<in> set (published (run (mount initial_ui) evs)). wire_shape m)"
    using run_wire_shape by blast
  moreover have "publishTwist now linX angZ (mount s) =
             (mount s)\<lparr> published := published s @ [buildTwistStamped now linX angZ] \<rparr>"
    by (simp add: publishTwist_def mount_def)
  ultimately show ?thesis
    using assms
    by (simp add: buildTwistStamped_def getROSTimestamp_def js_rem_nonneg)
qed

theorem published_message_wire_shape_witness:
  "buildTwistStamped 1234567 (1 / 4) (- 1 / 4) =
           \<lparr> msg_header = \<lparr> frame_id = ''base_link'',
                            hdr_stamp = \<lparr> sec = 1234, nanosec = 567000000 \<rparr> \<rparr>,
             msg_twist = \<lparr> tw_linear = \<lparr> vec_x = 1 / 4, vec_y = 0, vec_z = 0 \<rparr>,
                           tw_angular = \<lparr> vec_x = 0, vec_y = 0, vec_z = - 1 / 4 \<rparr> \<rparr> \<rparr>
   \<and> published (run (mount initial_ui) [TouchRelease 1234567]) = [buildTwistStamped 1234567 0 0]
   \<and> wire_shape (buildTwistStamped 1234567 0 0)"
proof -
  have h: "(0::int) \<le> 1234567" by simp
  have e: "\<forall>e \<in> set [TouchRelease 1234567]. stamp_time_ok e" by simp
  have p: "published (run (mount initial_ui) [TouchRelease 1234567]) = [buildTwistStamped 1234567 0 0]"
    by (simp add: run_simps publishTwist_published mount_def initial_ui_def)
  from published_message_wire_shape [OF h, of "1 / 4" "- 1 / 4" initial_ui "[TouchRelease 1234567]"] e p
  show ?thesis by simp
qed

subsection \<open>Publishing and the state of the connection\<close>

text \<open>
  Claim C7 says that a call of \<^verbatim>\<open>publishTwist\<close> is a silent no-op whenever the
  transport is not connected. The test in the code is on \<^verbatim>\<open>cmdVelRef.current\<close>, which
  holds the topic: the effect sets it before the connection is established, and no
  handler of a lifecycle event clears it. So the claim fails as stated: after the
  transport has closed, and while it is still connecting, a call hands a message to the
  topic.
\<close>

theorem publish_while_disconnected_counterexample:
  "webStatus (run (mount initial_ui) [RosConnection, RosClose]) = Disconnected
   \<and> published (publishTwist 1000 (1 / 4) 0 (run (mount initial_ui) [RosConnection, RosClose])) =
       [buildTwistStamped 1000 (1 / 4) 0]
   \<and> publishTwist 1000 (1 / 4) 0 (run (mount initial_ui) [RosConnection, RosClose]) \<noteq>
       run (mount initial_ui) [RosConnection, RosClose]
   \<and> webStatus (mount initial_ui) = Connecting
   \<and> published (publishTwist 1000 (1 / 4) 0 (mount initial_ui)) = [buildTwistStamped 1000 (1 / 4) 0]"
  by (simp add: pipeline_defs)

text \<open>
  Claim C7, as the code has it. A call of \<^verbatim>\<open>publishTwist\<close> leaves the page as it was
  exactly when the reference \<^verbatim>\<open>cmdVelRef.current\<close> is null, as it is before the effect
  has run; the model has no error value, as the source has no \<^verbatim>\<open>throw\<close> on this path.
  In every state that a run of the mounted page reaches, whatever lifecycle events the
  run contains, the reference is set and a call hands exactly one stamped message to
  the \<^verbatim>\<open>publish\<close> method of the topic.
\<close>

theorem publishTwist_noop_iff_no_publisher:
  "(publishTwist now lx az s = s) = (cmdVelRef s = None)
   \<and> published (publishTwist now lx az s) =
       (case cmdVelRef s of None \<Rightarrow> published s
        | Some t \<Rightarrow> published s @ [buildTwistStamped now lx az])
   \<and> cmdVelRef (initial_ui) = None
   \<and> cmdVelRef (run (mount u) evs) \<noteq> None
   \<and> published (publishTwist now lx az (run (mount u) evs)) =
       published (run (mount u) evs) @ [buildTwistStamped now lx az]
   \<and> cmdVelRef (onRosError err s) = cmdVelRef s
   \<and> cmdVelRef (onRosClose s) = cmdVelRef s"
proof -
  have m: "cmdVelRef (run (mount u) evs) \<noteq> None" by (rule mounted_publisher)
  then have "published (publishTwist now lx az (run (mount u) evs)) =
       published (run (mount u) evs) @ [buildTwistStamped now lx az]"
    by (auto simp add: publishTwist_published)
  with m show ?thesis
    by (simp add: publishTwist_noop_iff publishTwist_published initial_ui_def)
qed

theorem publishTwist_noop_iff_no_publisher_witness:
  "publishTwist 1000 (1 / 4) 0 initial_ui = initial_ui
   \<and> published (publishTwist 1000 (1 / 4) 0 (run (mount initial_ui) [RosConnection, RosError ''lost'', RosClose])) =
       [buildTwistStamped 1000 (1 / 4) 0]"
proof -
  have p: "published (run (mount initial_ui) [RosConnection, RosError ''lost'', RosClose]) = []"
    by (simp add: pipeline_defs)
  have n: "cmdVelRef initial_ui = None" by (simp add: initial_ui_def)
  from publishTwist_noop_iff_no_publisher [of 1000 "1 / 4" 0 initial_ui initial_ui "[]" "''lost''"] n
  have a: "publishTwist 1000 (1 / 4) 0 initial_ui = initial_ui" by simp
  from publishTwist_noop_iff_no_publisher [of 1000 "1 / 4" 0 initial_ui initial_ui
          "[RosConnection, RosError ''lost'', RosClose]" "''lost''"] p
  have b: "published (publishTwist 1000 (1 / 4) 0 (run (mount initial_ui) [RosConnection, RosError ''lost'', RosClose])) =
       [buildTwistStamped 1000 (1 / 4) 0]" by simp
  from a b show ?thesis by simp
qed

subsection \<open>Release of the joystick\<close>

text \<open>
  Claim C4. The release handler of the joystick calls \<^verbatim>\<open>onEnd\<close> once and then sets the
  status to Idle, whatever the throttle timer holds and whatever was emitted before. On
  the page, in every state, a release publishes exactly the stop command \<open>(0, 0)\<close>
  through the publisher (nothing else, and nothing when the page has no publisher yet),
  sets the command-activity status to Idle with the colour \<^verbatim>\<open>#ccc\<close>, and leaves the
  throttle timer alone.
\<close>

theorem touch_release_emits_stop_and_idle:
  "handleStop = [OnEnd, OnStatusUpdate Idle (Some ''#ccc'')]
   \<and> published (touchRelease tStamp s) =
       (case cmdVelRef s of None \<Rightarrow> published s
        | Some t \<Rightarrow> published s @ [buildTwistStamped tStamp 0 0])
   \<and> twistStatus (touchRelease tStamp s) = Idle
   \<and> twistStatusColor (touchRelease tStamp s) = ''#ccc''
   \<and> lastMoveTime (touchRelease tStamp s) = lastMoveTime s"
  by (simp add: handleStop_def publishTwist_published)

subsection \<open>Move events of the joystick\<close>

text \<open>
  Claim C1. A move event with both coordinates present that passes the 30 ms throttle
  makes the handler compute \<open>linear = ease(y) * linearMul\<close> and
  \<open>angular = - ease(x) * angularMul\<close>, in the arithmetic of the code; it calls
  \<^verbatim>\<open>onMove\<close> with this pair and signals Active exactly when \<open>|linear| > 0.01\<close> or
  \<open>|angular| > 0.01\<close>, and makes no call otherwise. On the page, the pair is published
  (through the publisher) and the status becomes Active in the first case; in the
  second nothing is published and the status keeps its value. For \<open>x = 50\<close>, \<open>y = 0\<close>
  and \<open>angularMul = 1\<close> an accepted event emits linear \<open>0\<close> and angular \<open>-0.25\<close>.
\<close>

theorem touch_move_emits_iff_above_threshold:
  assumes x: "ev_x ev = Some ex" and y: "ev_y ev = Some ey"
      and thr: "\<not> tMove - lastMoveTime s < 30"
  shows "handleMove (linearMul s) (angularMul s) tMove ev (lastMoveTime s) =
      (tMove,
       if \<bar>js_mul (applyEasing_fl ey) (linearMul s)\<bar> > fl (1 / 100)
          \<or> \<bar>js_mul (- applyEasing_fl ex) (angularMul s)\<bar> > fl (1 / 100)
       then [OnMove (js_mul (applyEasing_fl ey) (linearMul s))
                    (js_mul (- applyEasing_fl ex) (angularMul s)),
             OnStatusUpdate Active None]
       else [])
    \<and> published (touchMove tMove tStamp tLog ev s) =
        (if (\<bar>js_mul (applyEasing_fl ey) (linearMul s)\<bar> > fl (1 / 100)
             \<or> \<bar>js_mul (- applyEasing_fl ex) (angularMul s)\<bar> > fl (1 / 100))
            \<and> cmdVelRef s \<noteq> None
         then published s @
                [buildTwistStamped tStamp (js_mul (applyEasing_fl ey) (linearMul s))
                                          (js_mul (- applyEasing_fl ex) (angularMul s))]
         else published s)
    \<and> twistStatus (touchMove tMove tStamp tLog ev s) =
        (if \<bar>js_mul (applyEasing_fl ey) (linearMul s)\<bar> > fl (1 / 100)
            \<or> \<bar>js_mul (- applyEasing_fl ex) (angularMul s)\<bar> > fl (1 / 100)
         then Active else twistStatus s)
    \<and> handleMove lm 1 now \<lparr> ev_x = Some 50, ev_y = Some 0 \<rparr> lastT =
        (if now - lastT < 30 then (lastT, [])
         else (now, [OnMove 0 (- 1 / 4), OnStatusUpdate Active None]))"
proof -
  let ?lin = "js_mul (applyEasing_fl ey) (linearMul s)"
  let ?ang = "js_mul (- applyEasing_fl ex) (angularMul s)"
  let ?gate = "\<bar>?lin\<bar> > fl (1 / 100) \<or> \<bar>?ang\<bar> > fl (1 / 100)"
  have hm: "handleMove (linearMul s) (angularMul s) tMove ev (lastMoveTime s) =
      (tMove, if ?gate then [OnMove ?lin ?ang, OnStatusUpdate Active None] else [])"
    using x y thr by (rule handleMove_accepted)
  have pub: "published (touchMove tMove tStamp tLog ev s) =
        (if ?gate \<and> cmdVelRef s \<noteq> None
         then published s @ [buildTwistStamped tStamp ?lin ?ang] else published s)"
  proof (cases ?gate)
    case True
    with hm have "handleMove (linearMul s) (angularMul s) tMove ev (lastMoveTime s) =
       (tMove, [OnMove ?lin ?ang, OnStatusUpdate Active None])" by simp
    from touchMove_emitting(1) [OF this] True show ?thesis
      by (simp split: option.splits)
  next
    case False
    with hm have "handleMove (linearMul s) (angularMul s) tMove ev (lastMoveTime s) = (tMove, [])"
      by simp
    from touchMove_no_calls [OF this] False show ?thesis by simp
  qed
  have st: "twistStatus (touchMove tMove tStamp tLog ev s) = (if ?gate then Active else twistStatus s)"
  proof (cases ?gate)
    case True
    with hm have "handleMove (linearMul s) (angularMul s) tMove ev (lastMoveTime s) =
       (tMove, [OnMove ?lin ?ang, OnStatusUpdate Active None])" by simp
    from touchMove_emitting(2) [OF this] True show ?thesis by simp
  next
    case False
    with hm have "handleMove (linearMul s) (angularMul s) tMove ev (lastMoveTime s) = (tMove, [])"
      by simp
    from touchMove_no_calls [OF this] False show ?thesis by simp
  qed
  have scen: "handleMove lm 1 now \<lparr> ev_x = Some 50, ev_y = Some 0 \<rparr> lastT =
        (if now - lastT < 30 then (lastT, [])
         else (now, [OnMove 0 (- 1 / 4), OnStatusUpdate Active None]))"
    by (simp add: handleMove_def Let_def applyEasing_fl_values js_mul_one fl_hundredth)
  from hm pub st scen show ?thesis by blast
qed

theorem touch_move_emits_iff_above_threshold_witness:
  "published (touchMove 1000 1001 1002 \<lparr> ev_x = Some 50, ev_y = Some 0 \<rparr> (mount initial_ui)) =
     [buildTwistStamped 1001 0 (- 1 / 4)]
   \<and> twistStatus (touchMove 1000 1001 1002 \<lparr> ev_x = Some 50, ev_y = Some 0 \<rparr> (mount initial_ui)) = Active
   \<and> published (touchMove 1000 1001 1002 \<lparr> ev_x = Some 10, ev_y = Some 0 \<rparr> (mount initial_ui)) =
     [buildTwistStamped 1001 0 (- 1441151880758559 / 144115188075855872)]
   \<and> twistStatus (touchMove 1000 1001 1002 \<lparr> ev_x = Some 10, ev_y = Some 0 \<rparr> (mount initial_ui)) = Active
   \<and> published (touchMove 1000 1001 1002 \<lparr> ev_x = Some (25 / 4), ev_y = Some (25 / 4) \<rparr> (mount initial_ui)) = []
   \<and> twistStatus (touchMove 1000 1001 1002 \<lparr> ev_x = Some (25 / 4), ev_y = Some (25 / 4) \<rparr> (mount initial_ui)) = Pending"
proof -
  have thr: "\<not> 1000 - lastMoveTime (mount initial_ui) < 30"
    by (simp add: mount_def initial_ui_def)
  have a: "ev_x \<lparr> ev_x = Some 50, ev_y = Some 0 \<rparr> = Some 50"
          "ev_y \<lparr> ev_x = Some 50, ev_y = Some 0 \<rparr> = Some 0" by simp_all
  have b: "ev_x \<lparr> ev_x = Some 10, ev_y = Some 0 \<rparr> = Some 10"
          "ev_y \<lparr> ev_x = Some 10, ev_y = Some 0 \<rparr> = Some 0" by simp_all
  have c: "ev_x \<lparr> ev_x = Some (25 / 4), ev_y = Some (25 / 4) \<rparr> = Some (25 / 4)"
          "ev_y \<lparr> ev_x = Some (25 / 4), ev_y = Some (25 / 4) \<rparr> = Some (25 / 4)" by simp_all
  have m: "linearMul (mount initial_ui) = 1 / 2" "angularMul (mount initial_ui) = 1"
          "published (mount initial_ui) = []" "twistStatus (mount initial_ui) = Pending"
          "cmdVelRef (mount initial_ui) \<noteq> None"
    by (simp_all add: mount_def initial_ui_def)
  have v: "js_mul (applyEasing_fl 0) (1 / 2) = 0"
          "js_mul (- applyEasing_fl 50) 1 = - 1 / 4"
          "js_mul (- applyEasing_fl 10) 1 = - 1441151880758559 / 144115188075855872"
          "js_mul (applyEasing_fl (25 / 4)) (1 / 2) = 1 / 512"
          "js_mul (- applyEasing_fl (25 / 4)) 1 = - 1 / 256"
    by (simp_all add: applyEasing_fl_def fl_eval)
  from touch_move_emits_iff_above_threshold [OF a thr, of 1001 1002]
       touch_move_emits_iff_above_threshold [OF b thr, of 1001 1002]
       touch_move_emits_iff_above_threshold [OF c thr, of 1001 1002]
  show ?thesis
    by (simp add: m v fl_hundredth)
qed

subsection \<open>The throttle of the joystick\<close>

text \<open>
  Claim C5. A move event that arrives fewer than 30 ms after the content of
  \<^verbatim>\<open>lastMoveTime\<close> makes no call and leaves the timer (on the page: the whole state)
  as it was. The timer takes the value of the clock exactly when the event has both
  coordinates and passes the throttle, and keeps its value otherwise. Of two move
  events fewer than 30 ms apart (10 ms in particular) at most one emits, whatever the
  timer held before; two events 40 ms apart can both emit.
\<close>

theorem touch_throttle_rejects_within_30ms:
  "(now - lastT < 30 \<longrightarrow> handleMove lm am now ev lastT = (lastT, []))
   \<and> (tMove - lastMoveTime s < 30 \<longrightarrow> touchMove tMove tStamp tLog ev s = s)
   \<and> fst (handleMove lm am now ev lastT) =
       (if ev_x ev \<noteq> None \<and> ev_y ev \<noteq> None \<and> \<not> now - lastT < 30 then now else lastT)
   \<and> (tB - tA < 30 \<longrightarrow>
        snd (handleMove lm am tA evA lastA) = []
        \<or> snd (handleMove lmB amB tB evB (fst (handleMove lm am tA evA lastA))) = [])
   \<and> snd (handleMove (1 / 2) 1 1000 \<lparr> ev_x = Some 50, ev_y = Some 0 \<rparr> 0) =
        [OnMove 0 (- 1 / 4), OnStatusUpdate Active None]
   \<and> snd (handleMove (1 / 2) 1 1040 \<lparr> ev_x = Some 100, ev_y = Some 0 \<rparr>
             (fst (handleMove (1 / 2) 1 1000 \<lparr> ev_x = Some 50, ev_y = Some 0 \<rparr> 0))) =
        [OnMove 0 (- 1), OnStatusUpdate Active None]"
proof -
  have r: "now - lastT < 30 \<longrightarrow> handleMove lm am now ev lastT = (lastT, [])"
    by (simp add: handleMove_rejected)
  have rs: "tMove - lastMoveTime s < 30 \<longrightarrow> touchMove tMove tStamp tLog ev s = s"
  proof
    assume "tMove - lastMoveTime s < 30"
    then have "handleMove (linearMul s) (angularMul s) tMove ev (lastMoveTime s) = (lastMoveTime s, [])"
      by (rule handleMove_rejected)
    from touchMove_no_calls [OF this] show "touchMove tMove tStamp tLog ev s = s" by simp
  qed
  have t: "fst (handleMove lm am now ev lastT) =
       (if ev_x ev \<noteq> None \<and> ev_y ev \<noteq> None \<and> \<not> now - lastT < 30 then now else lastT)"
    by (simp add: handleMove_def Let_def split: option.splits)
  have two: "tB - tA < 30 \<longrightarrow>
        snd (handleMove lm am tA evA lastA) = []
        \<or> snd (handleMove lmB amB tB evB (fst (handleMove lm am tA evA lastA))) = []"
  proof
    assume d: "tB - tA < 30"
    show "snd (handleMove lm am tA evA lastA) = []
        \<or> snd (handleMove lmB amB tB evB (fst (handleMove lm am tA evA lastA))) = []"
    proof (cases "snd (handleMove lm am tA evA lastA) = []")
      case True
      then show ?thesis by simp
    next
      case False
      then have "fst (handleMove lm am tA evA lastA) = tA"
        by (simp add: handleMove_def Let_def split: option.splits if_splits)
      with d show ?thesis by (simp add: handleMove_rejected)
    qed
  qed
  have exA: "snd (handleMove (1 / 2) 1 1000 \<lparr> ev_x = Some 50, ev_y = Some 0 \<rparr> 0) =
        [OnMove 0 (- 1 / 4), OnStatusUpdate Active None]"
    by (simp add: handleMove_def Let_def applyEasing_fl_def; simp add: fl_eval)
  have exB: "snd (handleMove (1 / 2) 1 1040 \<lparr> ev_x = Some 100, ev_y = Some 0 \<rparr>
             (fst (handleMove (1 / 2) 1 1000 \<lparr> ev_x = Some 50, ev_y = Some 0 \<rparr> 0))) =
        [OnMove 0 (- 1), OnStatusUpdate Active None]"
    by (simp add: handleMove_def Let_def applyEasing_fl_def; simp add: fl_eval)
  from r rs t two exA exB show ?thesis by blast
qed

theorem touch_throttle_rejects_within_30ms_witness:
  "handleMove (1 / 2) 1 1010 \<lparr> ev_x = Some 100, ev_y = Some 0 \<rparr> 1000 = (1000, [])
   \<and> touchMove 1010 1011 1012 \<lparr> ev_x = Some 100, ev_y = Some 0 \<rparr>
         (initial_ui\<lparr> lastMoveTime := 1000 \<rparr>) = initial_ui\<lparr> lastMoveTime := 1000 \<rparr>
   \<and> snd (handleMove (1 / 2) 1 1000 \<lparr> ev_x = Some 50, ev_y = Some 0 \<rparr> 0) =
        [OnMove 0 (- 1 / 4), OnStatusUpdate Active None]
   \<and> snd (handleMove (1 / 2) 1 1010 \<lparr> ev_x = Some 100, ev_y = Some 0 \<rparr>
             (fst (handleMove (1 / 2) 1 1000 \<lparr> ev_x = Some 50, ev_y = Some 0 \<rparr> 0))) = []"
proof -
  let ?A = "handleMove (1 / 2) 1 1000 \<lparr> ev_x = Some 50, ev_y = Some 0 \<rparr> 0"
  let ?B = "handleMove (1 / 2) 1 1010 \<lparr> ev_x = Some 100, ev_y = Some 0 \<rparr> (fst ?A)"
  note inst = touch_throttle_rejects_within_30ms
             [where now = 1010 and lastT = 1000 and lm = "1 / 2" and am = 1
              and ev = "\<lparr> ev_x = Some 100, ev_y = Some 0 \<rparr>"
              and tA = 1000 and tB = 1010 and lastA = 0
              and tMove = 1010 and s = "initial_ui\<lparr> lastMoveTime := 1000 \<rparr>"
              and tStamp = 1011 and tLog = 1012
              and evA = "\<lparr> ev_x = Some 50, ev_y = Some 0 \<rparr>"
              and evB = "\<lparr> ev_x = Some 100, ev_y = Some 0 \<rparr>"
              and lmB = "1 / 2" and amB = 1]
  have d: "(1010::int) - 1000 < 30" by simp
  have ds: "1010 - lastMoveTime (initial_ui\<lparr> lastMoveTime := 1000 \<rparr>) < 30" by simp
  from inst d
  have rej: "handleMove (1 / 2) 1 1010 \<lparr> ev_x = Some 100, ev_y = Some 0 \<rparr> 1000 = (1000, [])"
    by blast
  from inst ds
  have rejs: "touchMove 1010 1011 1012 \<lparr> ev_x = Some 100, ev_y = Some 0 \<rparr>
         (initial_ui\<lparr> lastMoveTime := 1000 \<rparr>) = initial_ui\<lparr> lastMoveTime := 1000 \<rparr>"
    by blast
  from inst d have dis: "snd ?A = [] \<or> snd ?B = []"
    by blast
  from inst have a: "snd ?A = [OnMove 0 (- 1 / 4), OnStatusUpdate Active None]"
    by blast
  from dis a have "snd ?B = []" by simp
  with rej rejs a show ?thesis by simp
qed

subsection \<open>The gamepad polling loop\<close>

text \<open>
  Claim C2. A run of the polling callback at which the tracked pad is present publishes
  exactly one command, deadzoned and without easing, throttle or magnitude filter
  (\<open>pollGamepad_publishes_one\<close>); but the multipliers in it are those that the callback
  captured when the pad connected, not those of the page. After the pad has connected
  with \<open>linearMul = 0.5\<close> and the slider has set \<open>linearMul\<close> to \<open>2\<close>, a tick with
  \<open>y = -0.5\<close> publishes linear \<open>0.25\<close>, where \<open>- y * linearMul\<close> is \<open>1\<close>. A pad that
  connects after the change publishes \<open>1\<close>, and the joystick uses the new multiplier at
  once.
\<close>

theorem gamepad_loop_keeps_stale_multiplier:
  "linearMul (run (mount initial_ui)
     [GamepadConnected \<lparr> gp_id = ''pad0'', gp_index = 0, gp_axes = [0, - 1 / 2] \<rparr>,
      SetLinearMul 2,
      PollTick 16 [Some \<lparr> gp_id = ''pad0'', gp_index = 0, gp_axes = [0, - 1 / 2] \<rparr>]]) = 2
   \<and> published (run (mount initial_ui)
     [GamepadConnected \<lparr> gp_id = ''pad0'', gp_index = 0, gp_axes = [0, - 1 / 2] \<rparr>,
      SetLinearMul 2,
      PollTick 16 [Some \<lparr> gp_id = ''pad0'', gp_index = 0, gp_axes = [0, - 1 / 2] \<rparr>]]) =
     [buildTwistStamped 16 (1 / 4) 0]
   \<and> js_mul (- (- 1 / 2)) 2 = 1
   \<and> published (run (mount initial_ui)
     [SetLinearMul 2,
      GamepadConnected \<lparr> gp_id = ''pad0'', gp_index = 0, gp_axes = [0, - 1 / 2] \<rparr>,
      PollTick 16 [Some \<lparr> gp_id = ''pad0'', gp_index = 0, gp_axes = [0, - 1 / 2] \<rparr>]]) =
     [buildTwistStamped 16 1 0]
   \<and> published (touchMove 1000 1001 1002 \<lparr> ev_x = Some 0, ev_y = Some 100 \<rparr>
        (run (mount initial_ui)
          [GamepadConnected \<lparr> gp_id = ''pad0'', gp_index = 0, gp_axes = [0, - 1 / 2] \<rparr>,
           SetLinearMul 2])) = [buildTwistStamped 1001 2 0]"
  by (simp add: pipeline_defs; simp add: fl_eval)

text \<open>
  Claim C10. While a pad is tracked and present and the publisher is set, a run of the
  polling callback whose two axes lie inside the deadzone (magnitudes at most \<open>0.1\<close>)
  publishes the command \<open>(0, 0)\<close>, sets the status to Idle
  with the colour \<^verbatim>\<open>#ccc\<close> whatever the status was, and reschedules itself. In
  particular, after any move event of the joystick, the next such run leaves the status
  Idle and \<open>(0, 0)\<close> as the last published command.
\<close>

theorem idle_gamepad_overwrites_touch:
  assumes present: "getGamepads_at pads (gamepadIdxRef s) = Some gp"
      and x: "axis gp 0 = Some x" and y: "axis gp 1 = Some y"
      and dx: "\<bar>x\<bar> \<le> 1 / 10" and dy: "\<bar>y\<bar> \<le> 1 / 10"
      and pub: "cmdVelRef s = Some t"
  shows "published (pollGamepad lm am now pads s) = published s @ [buildTwistStamped now 0 0]
       \<and> twistStatus (pollGamepad lm am now pads s) = Idle
       \<and> twistStatusColor (pollGamepad lm am now pads s) = ''#ccc''
       \<and> rafQueue (pollGamepad lm am now pads s) =
            rafQueue s @ [\<lparr> cl_linearMul = lm, cl_angularMul = am \<rparr>]
       \<and> twistStatus (pollGamepad lm am now pads (touchMove tMove tStamp tLog ev s)) = Idle
       \<and> last (published (pollGamepad lm am now pads (touchMove tMove tStamp tLog ev s))) =
            buildTwistStamped now 0 0"
proof -
  have dz: "deadzoned (axis gp 1) lm = 0" "deadzoned (axis gp 0) am = 0"
    using x y dx dy by (simp_all add: deadzoned_inside)
  have idx: "gamepadIdxRef s \<noteq> None"
    using present by (cases "gamepadIdxRef s") (simp_all add: getGamepads_at_def)
  let ?s = "touchMove tMove tStamp tLog ev s"
  have present': "getGamepads_at pads (gamepadIdxRef ?s) = Some gp"
    using present by simp
  have pub': "cmdVelRef ?s = Some t" using pub by simp
  have "published (pollGamepad lm am now pads s) = published s @ [buildTwistStamped now 0 0]"
    using pollGamepad_present(1) [OF present] pub dz by (simp add: publishTwist_published)
  moreover have "twistStatus (pollGamepad lm am now pads s) = Idle"
    using pollGamepad_present(2) [OF present] dz by simp
  moreover have "twistStatusColor (pollGamepad lm am now pads s) = ''#ccc''"
    using pollGamepad_present(3) [OF present] dz by simp
  moreover have "rafQueue (pollGamepad lm am now pads s) =
            rafQueue s @ [\<lparr> cl_linearMul = lm, cl_angularMul = am \<rparr>]"
    using idx by (simp add: pollGamepad_rafQueue)
  moreover have "twistStatus (pollGamepad lm am now pads ?s) = Idle"
    using pollGamepad_present(2) [OF present'] dz by simp
  moreover have "last (published (pollGamepad lm am now pads ?s)) = buildTwistStamped now 0 0"
    using pollGamepad_present(1) [OF present'] pub' dz by (simp add: publishTwist_published)
  ultimately show ?thesis by blast
qed

theorem idle_gamepad_overwrites_touch_witness:
  "twistStatus (touchMove 1000 1001 1002 \<lparr> ev_x = Some 50, ev_y = Some 0 \<rparr>
       ((mount initial_ui)\<lparr> gamepadIdxRef := Some 0 \<rparr>)) = Active
   \<and> twistStatus (pollGamepad (1 / 2) 1 1016
       [Some \<lparr> gp_id = ''pad0'', gp_index = 0, gp_axes = [1 / 20, - 1 / 20] \<rparr>]
       (touchMove 1000 1001 1002 \<lparr> ev_x = Some 50, ev_y = Some 0 \<rparr>
          ((mount initial_ui)\<lparr> gamepadIdxRef := Some 0 \<rparr>))) = Idle
   \<and> last (published (pollGamepad (1 / 2) 1 1016
       [Some \<lparr> gp_id = ''pad0'', gp_index = 0, gp_axes = [1 / 20, - 1 / 20] \<rparr>]
       (touchMove 1000 1001 1002 \<lparr> ev_x = Some 50, ev_y = Some 0 \<rparr>
          ((mount initial_ui)\<lparr> gamepadIdxRef := Some 0 \<rparr>)))) = buildTwistStamped 1016 0 0"
proof -
  let ?gp = "\<lparr> gp_id = ''pad0'', gp_index = 0, gp_axes = [1 / 20, - 1 / 20] \<rparr>"
  let ?s = "(mount initial_ui)\<lparr> gamepadIdxRef := Some 0 \<rparr>"
  have p: "getGamepads_at [Some ?gp] (gamepadIdxRef ?s) = Some ?gp"
    by (simp add: getGamepads_at_def)
  have x: "axis ?gp 0 = Some (1 / 20)" and y: "axis ?gp 1 = Some (- 1 / 20)"
    by (simp_all add: axis_def)
  have dx: "\<bar>1 / 20 :: real\<bar> \<le> 1 / 10" and dy: "\<bar>- 1 / 20 :: real\<bar> \<le> 1 / 10"
    by simp_all
  have c: "cmdVelRef ?s =
      Some \<lparr> topic_name = ''/cmd_vel'', messageType = ''geometry_msgs/msg/TwistStamped'' \<rparr>"
    by (simp add: mount_def)
  have a: "twistStatus (touchMove 1000 1001 1002 \<lparr> ev_x = Some 50, ev_y = Some 0 \<rparr> ?s) = Active"
    by (simp add: pipeline_defs; simp add: fl_eval)
  from idle_gamepad_overwrites_touch [OF p x y dx dy c, of "1 / 2" 1 1016 1000 1001 1002 "\<lparr> ev_x = Some 50, ev_y = Some 0 \<rparr>"] a
  show ?thesis by simp
qed

text \<open>
  Claim C6. The disconnect handler clears the tracked index and publishes nothing. The
  polling callback that runs next publishes nothing, reschedules nothing and changes no
  cell at all; the tick only removes the callback from the queue. A run of the callback
  reschedules itself exactly when the tracked index is set: in particular a pad that is
  absent from the array while the index is set gives a missed tick, which publishes
  nothing and reschedules. Of all the events, only a disconnect event clears a set index,
  and a loop that is running with a set index is still running after every sequence of
  events without a disconnect event.
\<close>

theorem gamepad_disconnect_stops_polling:
  "gamepadIdxRef (handleGamepadDisconnected s) = None
   \<and> published (handleGamepadDisconnected s) = published s
   \<and> rafQueue (handleGamepadDisconnected s) = rafQueue s
   \<and> pollGamepad lm am now pads (handleGamepadDisconnected s) = handleGamepadDisconnected s
   \<and> tick now pads (handleGamepadDisconnected s) =
       (handleGamepadDisconnected s)\<lparr> rafQueue := tl (rafQueue s) \<rparr>
   \<and> (gamepadIdxRef s = None \<longrightarrow> pollGamepad lm am now pads s = s)
   \<and> rafQueue (pollGamepad lm am now pads s) =
       rafQueue s @ (if gamepadIdxRef s \<noteq> None
                     then [\<lparr> cl_linearMul = lm, cl_angularMul = am \<rparr>] else [])
   \<and> (gamepadIdxRef s \<noteq> None \<and> getGamepads_at pads (gamepadIdxRef s) = None \<longrightarrow>
        pollGamepad lm am now pads s =
          s\<lparr> rafQueue := rafQueue s @ [\<lparr> cl_linearMul = lm, cl_angularMul = am \<rparr>] \<rparr>)
   \<and> (gamepadIdxRef s \<noteq> None \<and> gamepadIdxRef (step s e) = None \<longrightarrow> e = GamepadDisconnected)
   \<and> (gamepadIdxRef s \<noteq> None \<and> rafQueue s \<noteq> [] \<and> GamepadDisconnected \<notin> set evs \<longrightarrow>
        gamepadIdxRef (run s evs) \<noteq> None \<and> rafQueue (run s evs) \<noteq> [])"
proof -
  have none: "\<And>u l a. gamepadIdxRef u = None \<Longrightarrow> pollGamepad l a now pads u = u"
    by (simp add: pollGamepad_absent getGamepads_at_def)
  have a: "pollGamepad lm am now pads (handleGamepadDisconnected s) = handleGamepadDisconnected s"
    by (rule none) simp
  have b: "tick now pads (handleGamepadDisconnected s) =
       (handleGamepadDisconnected s)\<lparr> rafQueue := tl (rafQueue s) \<rparr>"
  proof (cases "rafQueue s")
    case Nil
    then show ?thesis by (simp add: tick_def handleGamepadDisconnected_def logDebug_def)
  next
    case (Cons c rest)
    have "gamepadIdxRef ((handleGamepadDisconnected s)\<lparr> rafQueue := rest \<rparr>) = None" by simp
    from none [OF this] Cons show ?thesis by (simp add: tick_def)
  qed
  have c: "gamepadIdxRef s \<noteq> None \<and> getGamepads_at pads (gamepadIdxRef s) = None \<longrightarrow>
        pollGamepad lm am now pads s =
          s\<lparr> rafQueue := rafQueue s @ [\<lparr> cl_linearMul = lm, cl_angularMul = am \<rparr>] \<rparr>"
    by (simp add: pollGamepad_absent)
  have d: "gamepadIdxRef s \<noteq> None \<and> gamepadIdxRef (step s e) = None \<longrightarrow> e = GamepadDisconnected"
    by (cases e) auto
  have e: "gamepadIdxRef s \<noteq> None \<and> rafQueue s \<noteq> [] \<and> GamepadDisconnected \<notin> set evs \<longrightarrow>
        gamepadIdxRef (run s evs) \<noteq> None \<and> rafQueue (run s evs) \<noteq> []"
    using run_keeps_loop [of evs s] by blast
  from a b c d e none [of s] show ?thesis
    by (simp add: pollGamepad_rafQueue)
qed

theorem gamepad_disconnect_stops_polling_witness:
  "gamepadIdxRef (run (mount initial_ui)
       [GamepadConnected \<lparr> gp_id = ''pad0'', gp_index = 0, gp_axes = [0, - 1 / 2] \<rparr>,
        PollTick 16 [Some \<lparr> gp_id = ''pad0'', gp_index = 0, gp_axes = [0, - 1 / 2] \<rparr>],
        PollTick 33 [None]]) = Some 0
   \<and> length (rafQueue (run (mount initial_ui)
       [GamepadConnected \<lparr> gp_id = ''pad0'', gp_index = 0, gp_axes = [0, - 1 / 2] \<rparr>,
        PollTick 16 [Some \<lparr> gp_id = ''pad0'', gp_index = 0, gp_axes = [0, - 1 / 2] \<rparr>],
        PollTick 33 [None]])) = 1
   \<and> published (run (mount initial_ui)
       [GamepadConnected \<lparr> gp_id = ''pad0'', gp_index = 0, gp_axes = [0, - 1 / 2] \<rparr>,
        PollTick 16 [Some \<lparr> gp_id = ''pad0'', gp_index = 0, gp_axes = [0, - 1 / 2] \<rparr>],
        PollTick 33 [None],
        GamepadDisconnected,
        PollTick 50 [None]]) = [buildTwistStamped 16 (1 / 4) 0]
   \<and> rafQueue (run (mount initial_ui)
       [GamepadConnected \<lparr> gp_id = ''pad0'', gp_index = 0, gp_axes = [0, - 1 / 2] \<rparr>,
        PollTick 16 [Some \<lparr> gp_id = ''pad0'', gp_index = 0, gp_axes = [0, - 1 / 2] \<rparr>],
        PollTick 33 [None],
        GamepadDisconnected,
        PollTick 50 [None]]) = []
   \<and> gamepadIdxRef (mount initial_ui) = None
   \<and> pollGamepad (1 / 2) 1 50 [None] (mount initial_ui) = mount initial_ui
   \<and> rafQueue (run (run (mount initial_ui)
       [GamepadConnected \<lparr> gp_id = ''pad0'', gp_index = 0, gp_axes = [0, - 1 / 2] \<rparr>,
        PollTick 16 [Some \<lparr> gp_id = ''pad0'', gp_index = 0, gp_axes = [0, - 1 / 2] \<rparr>]])
       [PollTick 33 [None], TouchRelease 40, PollTick 50 [None]]) \<noteq> []"
proof -
  let ?gp = "\<lparr> gp_id = ''pad0'', gp_index = 0, gp_axes = [0, - 1 / 2] \<rparr>"
  let ?s1 = "run (mount initial_ui) [GamepadConnected ?gp, PollTick 16 [Some ?gp]]"
  let ?s2 = "run (mount initial_ui) [GamepadConnected ?gp, PollTick 16 [Some ?gp], PollTick 33 [None]]"
  have q1: "rafQueue ?s1 = [\<lparr> cl_linearMul = 1 / 2, cl_angularMul = 1 \<rparr>]"
    and i1: "gamepadIdxRef ?s1 = Some 0"
    and p1: "published ?s1 = [buildTwistStamped 16 (1 / 4) 0]"
    by ((simp add: pipeline_defs; simp add: fl_eval)+)
  have s2: "?s2 = tick 33 [None] ?s1"
    by (simp add: run_simps)
  have missed: "getGamepads_at [None] (gamepadIdxRef (?s1\<lparr> rafQueue := [] \<rparr>)) = None"
    using i1 by (simp add: getGamepads_at_def)
  note inst = gamepad_disconnect_stops_polling [where s = "?s1\<lparr> rafQueue := [] \<rparr>" and lm = "1 / 2" and am = 1 and now = 33
      and pads = "[None]" and e = GamepadDisconnected and evs = "[]"]
  from inst missed i1
  have t2: "pollGamepad (1 / 2) 1 33 [None] (?s1\<lparr> rafQueue := [] \<rparr>) =
      ?s1\<lparr> rafQueue := [\<lparr> cl_linearMul = 1 / 2, cl_angularMul = 1 \<rparr>] \<rparr>"
    by simp
  have s2': "?s2 = ?s1"
    unfolding s2 using q1 t2 by (simp add: tick_def)
  note inst2 = gamepad_disconnect_stops_polling [where s = "?s2" and lm = "1 / 2" and am = 1 and now = 50
      and pads = "[None]" and e = GamepadDisconnected and evs = "[]"]
  have run5: "run (mount initial_ui)
       [GamepadConnected ?gp, PollTick 16 [Some ?gp], PollTick 33 [None],
        GamepadDisconnected, PollTick 50 [None]] = tick 50 [None] (handleGamepadDisconnected ?s2)"
    by (simp add: run_simps)
  from inst2 have "tick 50 [None] (handleGamepadDisconnected ?s2) =
       (handleGamepadDisconnected ?s2)\<lparr> rafQueue := tl (rafQueue ?s2) \<rparr>"
    by blast
  with run5 s2' q1 p1 i1
  have first: "gamepadIdxRef ?s2 = Some 0 \<and> length (rafQueue ?s2) = 1
     \<and> published (run (mount initial_ui)
          [GamepadConnected ?gp, PollTick 16 [Some ?gp], PollTick 33 [None],
           GamepadDisconnected, PollTick 50 [None]]) = [buildTwistStamped 16 (1 / 4) 0]
     \<and> rafQueue (run (mount initial_ui)
          [GamepadConnected ?gp, PollTick 16 [Some ?gp], PollTick 33 [None],
           GamepadDisconnected, PollTick 50 [None]]) = []"
    by simp
  have i0: "gamepadIdxRef (mount initial_ui) = None"
    by (simp add: mount_def initial_ui_def)
  note inst3 = gamepad_disconnect_stops_polling [where s = "mount initial_ui" and lm = "1 / 2" and am = 1 and now = 50
      and pads = "[None]" and e = GamepadDisconnected and evs = "[]"]
  from inst3 i0 have idle: "pollGamepad (1 / 2) 1 50 [None] (mount initial_ui) = mount initial_ui"
    by blast
  note inst4 = gamepad_disconnect_stops_polling [where s = "?s1" and lm = "1 / 2" and am = 1 and now = 50
      and pads = "[None]" and e = GamepadDisconnected
      and evs = "[PollTick 33 [None], TouchRelease 40, PollTick 50 [None]]"]
  have nd: "GamepadDisconnected \<notin> set [PollTick 33 [None], TouchRelease 40, PollTick 50 [None]]"
    by simp
  have "gamepadIdxRef ?s1 \<noteq> None" "rafQueue ?s1 \<noteq> []"
    using i1 q1 by simp_all
  with inst4 nd
  have keeps: "rafQueue (run ?s1 [PollTick 33 [None], TouchRelease 40, PollTick 50 [None]]) \<noteq> []"
    by blast
  from first i0 idle keeps show ?thesis by blast
qed

subsection \<open>The number of polling loops\<close>

text \<open>
  Claim C8 says that at most one polling loop is active at every point of every
  sequence of connect events, disconnect events and poll ticks. A polling loop is a
  callback in the queue of \<^verbatim>\<open>requestAnimationFrame\<close>: each one runs at the next frame
  and, while a pad is tracked, registers itself again. The connect handler registers a
  callback without looking at the queue, and nothing ever removes one. So the claim
  fails as stated: a second pad that connects while the first is tracked leaves two
  loops, and so does one pad that disconnects and connects again before the next frame;
  in the second run every frame then publishes twice.
\<close>

theorem two_polling_loops_counterexample:
  "length (rafQueue (run (mount initial_ui)
     [GamepadConnected \<lparr> gp_id = ''pad0'', gp_index = 0, gp_axes = [0, 0] \<rparr>,
      PollTick 16 [Some \<lparr> gp_id = ''pad0'', gp_index = 0, gp_axes = [0, 0] \<rparr>],
      GamepadConnected \<lparr> gp_id = ''pad1'', gp_index = 1, gp_axes = [0, 0] \<rparr>,
      PollTick 33 [Some \<lparr> gp_id = ''pad0'', gp_index = 0, gp_axes = [0, 0] \<rparr>,
                   Some \<lparr> gp_id = ''pad1'', gp_index = 1, gp_axes = [0, 0] \<rparr>],
      PollTick 33 [Some \<lparr> gp_id = ''pad0'', gp_index = 0, gp_axes = [0, 0] \<rparr>,
                   Some \<lparr> gp_id = ''pad1'', gp_index = 1, gp_axes = [0, 0] \<rparr>]])) = 2
   \<and> length (rafQueue (run (mount initial_ui)
     [GamepadConnected \<lparr> gp_id = ''pad0'', gp_index = 0, gp_axes = [0, 0] \<rparr>,
      GamepadDisconnected,
      GamepadConnected \<lparr> gp_id = ''pad0'', gp_index = 0, gp_axes = [0, 0] \<rparr>,
      PollTick 16 [Some \<lparr> gp_id = ''pad0'', gp_index = 0, gp_axes = [0, 0] \<rparr>],
      PollTick 16 [Some \<lparr> gp_id = ''pad0'', gp_index = 0, gp_axes = [0, 0] \<rparr>]])) = 2
   \<and> published (run (mount initial_ui)
     [GamepadConnected \<lparr> gp_id = ''pad0'', gp_index = 0, gp_axes = [0, 0] \<rparr>,
      GamepadDisconnected,
      GamepadConnected \<lparr> gp_id = ''pad0'', gp_index = 0, gp_axes = [0, 0] \<rparr>,
      PollTick 16 [Some \<lparr> gp_id = ''pad0'', gp_index = 0, gp_axes = [0, 0] \<rparr>],
      PollTick 16 [Some \<lparr> gp_id = ''pad0'', gp_index = 0, gp_axes = [0, 0] \<rparr>]]) =
     [buildTwistStamped 16 0 0, buildTwistStamped 16 0 0]"
  by (simp add: pipeline_defs; simp add: fl_eval)

text \<open>
  Claim C8, as the code has it. A connect event replaces the tracked index and
  registers one further polling callback, and no other event makes the queue longer.
  Hence at every point of every sequence of events in which each connect event arrives
  while no polling callback is registered, at most one polling loop is active.
\<close>

theorem connect_schedules_one_more_polling_loop:
  "gamepadIdxRef (handleGamepadConnected gp s) = Some (gp_index gp)
   \<and> rafQueue (handleGamepadConnected gp s) =
       rafQueue s @ [\<lparr> cl_linearMul = linearMul s, cl_angularMul = angularMul s \<rparr>]
   \<and> length (rafQueue (step s e)) \<le>
       length (rafQueue s) + (case e of GamepadConnected g \<Rightarrow> 1 | _ \<Rightarrow> 0)
   \<and> (length (rafQueue s) \<le> 1 \<and> connects_when_idle s evs \<longrightarrow>
        length (rafQueue (run s evs)) \<le> 1)"
  using step_rafQueue_length [of s e] run_single_loop [of s evs] by simp

theorem connect_schedules_one_more_polling_loop_witness:
  "connects_when_idle (mount initial_ui)
     [GamepadConnected \<lparr> gp_id = ''pad0'', gp_index = 0, gp_axes = [0, 0] \<rparr>,
      PollTick 16 [Some \<lparr> gp_id = ''pad0'', gp_index = 0, gp_axes = [0, 0] \<rparr>],
      GamepadDisconnected,
      PollTick 33 [None],
      GamepadConnected \<lparr> gp_id = ''pad1'', gp_index = 1, gp_axes = [0, 0] \<rparr>,
      PollTick 50 [None, Some \<lparr> gp_id = ''pad1'', gp_index = 1, gp_axes = [0, 0] \<rparr>]]
   \<and> length (rafQueue (run (mount initial_ui)
     [GamepadConnected \<lparr> gp_id = ''pad0'', gp_index = 0, gp_axes = [0, 0] \<rparr>,
      PollTick 16 [Some \<lparr> gp_id = ''pad0'', gp_index = 0, gp_axes = [0, 0] \<rparr>],
      GamepadDisconnected,
      PollTick 33 [None],
      GamepadConnected \<lparr> gp_id = ''pad1'', gp_index = 1, gp_axes = [0, 0] \<rparr>,
      PollTick 50 [None, Some \<lparr> gp_id = ''pad1'', gp_index = 1, gp_axes = [0, 0] \<rparr>]])) \<le> 1"
proof -
  let ?evs = "[GamepadConnected \<lparr> gp_id = ''pad0'', gp_index = 0, gp_axes = [0, 0] \<rparr>,
      PollTick 16 [Some \<lparr> gp_id = ''pad0'', gp_index = 0, gp_axes = [0, 0] \<rparr>],
      GamepadDisconnected,
      PollTick 33 [None],
      GamepadConnected \<lparr> gp_id = ''pad1'', gp_index = 1, gp_axes = [0, 0] \<rparr>,
      PollTick 50 [None, Some \<lparr> gp_id = ''pad1'', gp_index = 1, gp_axes = [0, 0] \<rparr>]]"
  have q: "length (rafQueue (mount initial_ui)) \<le> 1"
    by (simp add: mount_def initial_ui_def)
  have g: "connects_when_idle (mount initial_ui) ?evs"
    by (simp add: pipeline_defs; simp add: fl_eval)
  from connect_schedules_one_more_polling_loop [where s = "mount initial_ui" and evs = ?evs and e = GamepadDisconnected
              and gp = "\<lparr> gp_id = ''pad0'', gp_index = 0, gp_axes = [0, 0] \<rparr>"] q g
  show ?thesis by blast
qed

end
